theory Spec2Isabelle
  imports Complex_Main
begin

section \<open>Common definitions\<close>

text \<open>
  Python floats are modelled as reals. Exceptions are values: a computation that can
  raise returns \<open>error + 'a\<close>, with \<open>Inl\<close> carrying the exception.
\<close>

datatype error = ZeroDivisionError | KeyError | ValueError | IndexError

text \<open>\<open>np.mean\<close> of a non-empty sequence; every call site checks for emptiness first.\<close>

definition np_mean :: "real list \<Rightarrow> real" where
  "np_mean xs = sum_list xs / real (length xs)"

text \<open>A dictionary entry: \<open>None\<close> is an absent key, \<open>Some None\<close> a key bound to Python's
  \<open>None\<close>. \<open>dict.get(key)\<close> returns \<open>None\<close> in both cases.\<close>

definition dict_get :: "'a option option \<Rightarrow> 'a option" where
  "dict_get e = (case e of None \<Rightarrow> None | Some v \<Rightarrow> v)"

section \<open>Profile matcher (biometric\_auth.py)\<close>

record metric_stats =
  stat_mean :: real
  stat_std :: real
  stat_min :: real
  stat_max :: real

record pose_stats =
  pose_mean :: real
  pose_std :: real
  pose_range :: real

record color_stats =
  color_mean :: "real list"
  color_std :: "real list"

text \<open>The profile and the live feature set are dictionaries with the keys
  \<open>geometry\<close>, \<open>pose\<close> and \<open>color\<close>. A dictionary is falsy when it has no key.\<close>

record profile =
  p_geometry :: "(string \<times> metric_stats) list option option"
  p_pose :: "(string \<times> pose_stats) list option option"
  p_color :: "color_stats option option"

record features =
  c_geometry :: "(string \<times> real) list option option"
  c_pose :: "(string \<times> real) list option option"
  c_color :: "real list option option"

definition profile_empty :: "profile \<Rightarrow> bool" where
  "profile_empty p \<longleftrightarrow> p_geometry p = None \<and> p_pose p = None \<and> p_color p = None"

definition features_empty :: "features \<Rightarrow> bool" where
  "features_empty c \<longleftrightarrow> c_geometry c = None \<and> c_pose c = None \<and> c_color c = None"

text \<open>The result dictionary of one category: \<open>match_score\<close>, the optional \<open>error\<close>
  string, the per-item scores (\<open>metric_scores\<close> or \<open>axis_scores\<close>) and, for colour,
  \<open>color_difference\<close>.\<close>

record category_result =
  match_score :: real
  error_msg :: "string option"
  item_scores :: "(string \<times> real) list"
  color_difference :: "real option"

text \<open>The second component of what \<open>verify_biometric\<close> returns: either the dictionary
  \<open>{"error": ...}\<close> or the dictionary with \<open>overall_score\<close> and \<open>details\<close>.\<close>

datatype verdict_info =
  ErrorInfo string
| ScoreInfo real "(string \<times> category_result) list"

definition default_tolerances :: "string \<rightharpoonup> real" where
  "default_tolerances = map_of
     [(''eye_distance'', 0.1), (''mouth_width'', 0.15), (''nose_to_chin'', 0.1),
      (''width_ratio_temple_jaw'', 0.05), (''width_ratio_cheek_jaw'', 0.05),
      (''height_ratio_nose_face'', 0.05), (''face_width_height_ratio'', 0.05),
      (''nose_angle'', 5.0), (''left_eye_angle'', 5.0), (''right_eye_angle'', 5.0),
      (''mouth_symmetry_angle'', 5.0),
      (''pitch'', 15.0), (''yaw'', 15.0), (''roll'', 15.0),
      (''color_tolerance'', 25.0)]"

text \<open>\<open>tolerance_thresholds.get(metric, 0.1)\<close>.\<close>

definition get_threshold :: "(string \<rightharpoonup> real) \<Rightarrow> string \<Rightarrow> real" where
  "get_threshold tol metric = (case tol metric of None \<Rightarrow> 0.1 | Some t \<Rightarrow> t)"

text \<open>The body of the loop of \<open>_verify_geometry\<close> for one metric present on both sides.
  The operands are Python floats, so a zero \<open>max_allowed_diff\<close> raises.\<close>

definition geometry_metric_score :: "real \<Rightarrow> real \<Rightarrow> real \<Rightarrow> error + real" where
  "geometry_metric_score current_value mean threshold =
     (let diff = \<bar>current_value - mean\<bar>;
          max_allowed_diff = mean * threshold
      in if max_allowed_diff = 0 then Inl ZeroDivisionError
         else Inr (max 0 (1 - diff / max_allowed_diff)))"

text \<open>The loop of \<open>_verify_geometry\<close>: the list \<open>matches\<close>, in the order of the profile's
  items; a metric that the live data lacks is skipped by \<open>continue\<close>.\<close>

fun geometry_matches ::
  "(string \<rightharpoonup> real) \<Rightarrow> (string \<times> metric_stats) list \<Rightarrow> (string \<times> real) list \<Rightarrow> error + real list"
where
  "geometry_matches tol [] cg = Inr []"
| "geometry_matches tol ((metric, profile_values) # rest) cg =
     (case map_of cg metric of
        None \<Rightarrow> geometry_matches tol rest cg
      | Some current_value \<Rightarrow>
          (case geometry_metric_score current_value (stat_mean profile_values)
                  (get_threshold tol metric) of
             Inl e \<Rightarrow> Inl e
           | Inr s \<Rightarrow>
               (case geometry_matches tol rest cg of
                  Inl e \<Rightarrow> Inl e
                | Inr ms \<Rightarrow> Inr (s # ms))))"

definition verify_geometry ::
  "(string \<rightharpoonup> real) \<Rightarrow> (string \<times> metric_stats) list option \<Rightarrow> (string \<times> real) list option
     \<Rightarrow> error + category_result"
where
  "verify_geometry tol profile_geometry current_geometry =
     (case (profile_geometry, current_geometry) of
        (Some pg, Some cg) \<Rightarrow>
          if pg = [] \<or> cg = [] then
            Inr \<lparr>match_score = 0, error_msg = Some ''Missing geometry data'',
                 item_scores = [], color_difference = None\<rparr>
          else
            (case geometry_matches tol pg cg of
               Inl e \<Rightarrow> Inl e
             | Inr matches \<Rightarrow>
                 Inr \<lparr>match_score = (if matches \<noteq> [] then np_mean matches else 0),
                      error_msg = None,
                      item_scores = zip (map fst pg) matches,
                      color_difference = None\<rparr>)
      | _ \<Rightarrow>
          Inr \<lparr>match_score = 0, error_msg = Some ''Missing geometry data'',
               item_scores = [], color_difference = None\<rparr>)"

text \<open>One axis of \<open>_verify_pose\<close>: the tolerance is read with \<open>[axis]\<close>, which raises
  \<open>KeyError\<close> on a missing key, and the division is one of Python floats.\<close>

definition pose_axis_score :: "(string \<rightharpoonup> real) \<Rightarrow> string \<Rightarrow> real \<Rightarrow> real \<Rightarrow> error + real" where
  "pose_axis_score tol axis current_value mean =
     (case tol axis of
        None \<Rightarrow> Inl KeyError
      | Some threshold \<Rightarrow>
          (let diff = \<bar>current_value - mean\<bar>
           in if threshold = 0 then Inl ZeroDivisionError
              else Inr (max 0 (1 - diff / threshold))))"

fun pose_matches ::
  "(string \<rightharpoonup> real) \<Rightarrow> string list \<Rightarrow> (string \<times> pose_stats) list \<Rightarrow> (string \<times> real) list
     \<Rightarrow> error + real list"
where
  "pose_matches tol [] pp cp = Inr []"
| "pose_matches tol (axis # rest) pp cp =
     (case (map_of cp axis, map_of pp axis) of
        (Some current_value, Some profile_values) \<Rightarrow>
          (case pose_axis_score tol axis current_value (pose_mean profile_values) of
             Inl e \<Rightarrow> Inl e
           | Inr s \<Rightarrow>
               (case pose_matches tol rest pp cp of
                  Inl e \<Rightarrow> Inl e
                | Inr ms \<Rightarrow> Inr (s # ms)))
      | _ \<Rightarrow> pose_matches tol rest pp cp)"

definition verify_pose ::
  "(string \<rightharpoonup> real) \<Rightarrow> (string \<times> pose_stats) list option \<Rightarrow> (string \<times> real) list option
     \<Rightarrow> error + category_result"
where
  "verify_pose tol profile_pose current_pose =
     (case (profile_pose, current_pose) of
        (Some pp, Some cp) \<Rightarrow>
          if pp = [] \<or> cp = [] then
            Inr \<lparr>match_score = 0, error_msg = Some ''Missing pose data'',
                 item_scores = [], color_difference = None\<rparr>
          else
            (case pose_matches tol [''pitch'', ''yaw'', ''roll''] pp cp of
               Inl e \<Rightarrow> Inl e
             | Inr matches \<Rightarrow>
                 Inr \<lparr>match_score = (if matches \<noteq> [] then np_mean matches else 0),
                      error_msg = None,
                      item_scores = zip [''pitch'', ''yaw'', ''roll''] matches,
                      color_difference = None\<rparr>)
      | _ \<Rightarrow>
          Inr \<lparr>match_score = 0, error_msg = Some ''Missing pose data'',
               item_scores = [], color_difference = None\<rparr>)"

text \<open>\<open>np.array(a) - np.array(b)\<close> on one-dimensional arrays: equal lengths subtract
  pointwise, a length-one side is broadcast, anything else raises \<open>ValueError\<close>.\<close>

definition np_sub :: "real list \<Rightarrow> real list \<Rightarrow> error + real list" where
  "np_sub a b =
     (if length a = length b then Inr (map (\<lambda>(x, y). x - y) (zip a b))
      else if length a = 1 then Inr (map (\<lambda>y. hd a - y) b)
      else if length b = 1 then Inr (map (\<lambda>x. x - hd b) a)
      else Inl ValueError)"

text \<open>\<open>np.linalg.norm\<close> of a vector.\<close>

definition np_norm :: "real list \<Rightarrow> real" where
  "np_norm v = sqrt (sum_list (map (\<lambda>x. x * x) v))"

text \<open>\<open>_verify_color\<close>. The colour difference is a NumPy float, so a zero denominator
  gives \<open>inf\<close> or \<open>nan\<close> instead of raising, and \<open>max(0.0, ...)\<close> then returns \<open>0.0\<close>.\<close>

definition verify_color ::
  "(string \<rightharpoonup> real) \<Rightarrow> color_stats option \<Rightarrow> real list option \<Rightarrow> error + category_result"
where
  "verify_color tol profile_color current_color =
     (case (profile_color, current_color) of
        (Some pc, Some cc) \<Rightarrow>
          if cc = [] then
            Inr \<lparr>match_score = 0, error_msg = Some ''Missing color data'',
                 item_scores = [], color_difference = None\<rparr>
          else
            (case tol ''color_tolerance'' of
               None \<Rightarrow> Inl KeyError
             | Some threshold \<Rightarrow>
                 (case np_sub cc (color_mean pc) of
                    Inl e \<Rightarrow> Inl e
                  | Inr d \<Rightarrow>
                      (let color_diff = np_norm d;
                           score = (if threshold * sqrt 3 = 0 then 0
                                    else max 0 (1 - color_diff / (threshold * sqrt 3)))
                       in Inr \<lparr>match_score = score, error_msg = None,
                               item_scores = [], color_difference = Some color_diff\<rparr>)))
      | _ \<Rightarrow>
          Inr \<lparr>match_score = 0, error_msg = Some ''Missing color data'',
               item_scores = [], color_difference = None\<rparr>)"

text \<open>Python's \<open>not profile\<close> and \<open>not current_data\<close>: true for \<open>None\<close> and for the
  empty dictionary.\<close>

definition not_profile :: "profile option \<Rightarrow> bool" where
  "not_profile profile = (case profile of None \<Rightarrow> True | Some p \<Rightarrow> profile_empty p)"

definition not_current_data :: "features option \<Rightarrow> bool" where
  "not_current_data current_data =
     (case current_data of None \<Rightarrow> True | Some c \<Rightarrow> features_empty c)"

text \<open>\<open>verify_biometric\<close>. Every category result carries a \<open>match_score\<close>, so all
  three are appended to \<open>match_scores\<close>.\<close>

definition verify_biometric ::
  "(string \<rightharpoonup> real) \<Rightarrow> profile option \<Rightarrow> features option \<Rightarrow> error + (bool \<times> verdict_info)"
where
  "verify_biometric tol profile current_data =
     (if not_profile profile \<or> not_current_data current_data then
        Inr (False, ErrorInfo ''Missing profile or current data'')
      else
        (case (profile, current_data) of
           (Some p, Some c) \<Rightarrow>
             (case verify_geometry tol (dict_get (p_geometry p)) (dict_get (c_geometry c)) of
                Inl e \<Rightarrow> Inl e
              | Inr g \<Rightarrow>
                  (case verify_pose tol (dict_get (p_pose p)) (dict_get (c_pose c)) of
                     Inl e \<Rightarrow> Inl e
                   | Inr po \<Rightarrow>
                       (case verify_color tol (dict_get (p_color p)) (dict_get (c_color c)) of
                          Inl e \<Rightarrow> Inl e
                        | Inr co \<Rightarrow>
                            (let results = [(''geometry'', g), (''pose'', po), (''color'', co)];
                                 match_scores = map (match_score \<circ> snd) results;
                                 overall_score =
                                   (if match_scores \<noteq> [] then np_mean match_scores else 0)
                             in Inr (overall_score \<ge> 0.8, ScoreInfo overall_score results)))))
         | _ \<Rightarrow> Inr (False, ErrorInfo ''Missing profile or current data'')))"

text \<open>The geometry scores as the specification words them: for each metric of the profile
  that the live data also have, \<open>max(0, 1 - |live - mean| / (mean * tolerance))\<close>; the
  other metrics contribute nothing.\<close>

definition expected_geometry_scores ::
  "(string \<rightharpoonup> real) \<Rightarrow> (string \<times> metric_stats) list \<Rightarrow> (string \<times> real) list \<Rightarrow> real list"
where
  "expected_geometry_scores tol pg cg =
     List.map_filter
       (\<lambda>(m, st). map_option
          (\<lambda>live. max 0 (1 - \<bar>live - stat_mean st\<bar> / (stat_mean st * get_threshold tol m)))
          (map_of cg m))
       pg"

text \<open>No metric present on both sides has \<open>mean * tolerance = 0\<close>.\<close>

definition geometry_denominators_nonzero ::
  "(string \<rightharpoonup> real) \<Rightarrow> (string \<times> metric_stats) list \<Rightarrow> (string \<times> real) list \<Rightarrow> bool"
where
  "geometry_denominators_nonzero tol pg cg \<longleftrightarrow>
     (\<forall>(m, st) \<in> set pg. map_of cg m \<noteq> None \<longrightarrow> stat_mean st * get_threshold tol m \<noteq> 0)"

text \<open>The live data equal the stored mean: on every compared geometry metric (at least
  one, none with a zero \<open>mean * tolerance\<close>), on every compared pose axis (at least one,
  each with a configured nonzero tolerance), and on the colour (with a configured nonzero
  tolerance).\<close>

definition geometry_equals_mean ::
  "(string \<rightharpoonup> real) \<Rightarrow> (string \<times> metric_stats) list \<Rightarrow> (string \<times> real) list \<Rightarrow> bool"
where
  "geometry_equals_mean tol pg cg \<longleftrightarrow>
     (\<exists>(m, st) \<in> set pg. map_of cg m \<noteq> None) \<and>
     (\<forall>(m, st) \<in> set pg. \<forall>live. map_of cg m = Some live \<longrightarrow>
        live = stat_mean st \<and> stat_mean st * get_threshold tol m \<noteq> 0)"

definition pose_equals_mean ::
  "(string \<rightharpoonup> real) \<Rightarrow> (string \<times> pose_stats) list \<Rightarrow> (string \<times> real) list \<Rightarrow> bool"
where
  "pose_equals_mean tol pp cp \<longleftrightarrow>
     (\<exists>axis \<in> set [''pitch'', ''yaw'', ''roll''].
        map_of cp axis \<noteq> None \<and> map_of pp axis \<noteq> None) \<and>
     (\<forall>axis \<in> set [''pitch'', ''yaw'', ''roll'']. \<forall>live st.
        map_of cp axis = Some live \<and> map_of pp axis = Some st \<longrightarrow>
        live = pose_mean st \<and> (\<exists>t. tol axis = Some t \<and> t \<noteq> 0))"

definition color_equals_mean :: "(string \<rightharpoonup> real) \<Rightarrow> color_stats \<Rightarrow> real list \<Rightarrow> bool" where
  "color_equals_mean tol pc cc \<longleftrightarrow>
     cc \<noteq> [] \<and> cc = color_mean pc \<and> (\<exists>t. tol ''color_tolerance'' = Some t \<and> t \<noteq> 0)"

text \<open>Example data: statistics of a single sample, a pose profile, a colour profile, and a
  profile and a live feature set around a given geometry section.\<close>

abbreviation stats_of :: "real \<Rightarrow> metric_stats" where
  "stats_of m \<equiv> \<lparr>stat_mean = m, stat_std = 0, stat_min = m, stat_max = m\<rparr>"

abbreviation pose_of :: "real \<Rightarrow> pose_stats" where
  "pose_of m \<equiv> \<lparr>pose_mean = m, pose_std = 0, pose_range = 0\<rparr>"

abbreviation example_pose_profile :: "(string \<times> pose_stats) list" where
  "example_pose_profile \<equiv> [(''pitch'', pose_of 2), (''yaw'', pose_of (-3)), (''roll'', pose_of 0)]"

abbreviation example_pose :: "(string \<times> real) list" where
  "example_pose \<equiv> [(''pitch'', 2), (''yaw'', -3), (''roll'', 0)]"

abbreviation example_color_profile :: color_stats where
  "example_color_profile \<equiv> \<lparr>color_mean = [120, 110, 100], color_std = [1, 1, 1]\<rparr>"

abbreviation example_profile :: "(string \<times> metric_stats) list \<Rightarrow> profile" where
  "example_profile pg \<equiv>
     \<lparr>p_geometry = Some (Some pg), p_pose = Some (Some example_pose_profile),
      p_color = Some (Some example_color_profile)\<rparr>"

abbreviation example_features :: "(string \<times> real) list \<Rightarrow> features" where
  "example_features cg \<equiv>
     \<lparr>c_geometry = Some (Some cg), c_pose = Some (Some example_pose),
      c_color = Some (Some [120, 110, 100])\<rparr>"

section \<open>Change gate (change\_detector.py)\<close>

text \<open>A landmark array has one row \<open>(x, y, z)\<close> per landmark.\<close>

type_synonym point = "real \<times> real \<times> real"

type_synonym landmarks = "point list"

definition px :: "point \<Rightarrow> real" where
  "px p = fst p"

definition py :: "point \<Rightarrow> real" where
  "py p = fst (snd p)"

definition pz :: "point \<Rightarrow> real" where
  "pz p = snd (snd p)"

definition point_sub :: "point \<Rightarrow> point \<Rightarrow> point" where
  "point_sub p q = (px p - px q, py p - py q, pz p - pz q)"

text \<open>\<open>np.linalg.norm\<close> of one row.\<close>

definition point_norm :: "point \<Rightarrow> real" where
  "point_norm p = sqrt (px p * px p + py p * py p + pz p * pz p)"

text \<open>\<open>a - b\<close> on two arrays of rows: equal lengths subtract row by row, a single row
  is broadcast against the other array, anything else raises \<open>ValueError\<close>.\<close>

definition rows_sub :: "landmarks \<Rightarrow> landmarks \<Rightarrow> error + landmarks" where
  "rows_sub a b =
     (if length a = length b then Inr (map (\<lambda>(p, q). point_sub p q) (zip a b))
      else if length a = 1 then Inr (map (\<lambda>q. point_sub (hd a) q) b)
      else if length b = 1 then Inr (map (\<lambda>p. point_sub p (hd b)) a)
      else Inl ValueError)"

text \<open>\<open>np.max\<close> and \<open>np.min\<close> raise \<open>ValueError\<close> on an empty array.\<close>

definition np_max :: "real list \<Rightarrow> error + real" where
  "np_max xs = (case xs of [] \<Rightarrow> Inl ValueError | x # rest \<Rightarrow> Inr (fold max rest x))"

definition np_min :: "real list \<Rightarrow> error + real" where
  "np_min xs = (case xs of [] \<Rightarrow> Inl ValueError | x # rest \<Rightarrow> Inr (fold min rest x))"

text \<open>The extent \<open>np.max(col) - np.min(col)\<close> of one coordinate.\<close>

definition extent :: "real list \<Rightarrow> error + real" where
  "extent xs =
     (case np_max xs of
        Inl e \<Rightarrow> Inl e
      | Inr hi \<Rightarrow> (case np_min xs of Inl e \<Rightarrow> Inl e | Inr lo \<Rightarrow> Inr (hi - lo)))"

text \<open>The head pose dictionary, with the keys \<open>pitch\<close>, \<open>yaw\<close> and \<open>roll\<close>; the
  dictionary \<open>HEAD_POSE_THRESHOLD\<close> has the same keys.\<close>

record pose =
  pitch :: real
  yaw :: real
  roll :: real

record thresholds =
  MIN_FRAME_INTERVAL :: real
  MAX_STORED_FRAMES :: int
  LANDMARK_CHANGE_THRESHOLD :: real
  EXPRESSION_METRICS :: "(string \<times> real) list"
  HEAD_POSE_THRESHOLD :: pose

text \<open>The values of settings.py.\<close>

definition settings :: thresholds where
  "settings =
     \<lparr>MIN_FRAME_INTERVAL = 0.5, MAX_STORED_FRAMES = 100, LANDMARK_CHANGE_THRESHOLD = 0.1,
      EXPRESSION_METRICS =
        [(''mouth_aspect_ratio'', 0.2), (''eye_aspect_ratio'', 0.15), (''eyebrow_position'', 0.1)],
      HEAD_POSE_THRESHOLD = \<lparr>pitch = 15, yaw = 15, roll = 15\<rparr>\<rparr>"

text \<open>The fields of \<open>ChangeDetector\<close>. Times are seconds on the clock that
  \<open>datetime.now()\<close> reads.\<close>

record change_detector =
  last_landmarks :: "landmarks option"
  last_pose :: "pose option"
  last_save_time :: "real option"
  frame_count :: int

text \<open>The state that \<open>__init__\<close> sets up.\<close>

definition initial_detector :: change_detector where
  "initial_detector =
     \<lparr>last_landmarks = None, last_pose = None, last_save_time = None, frame_count = 0\<rparr>"

text \<open>A landmark change is a float or \<open>float('inf')\<close>.\<close>

datatype change = Finite real | Infinite

fun exceeds :: "change \<Rightarrow> real \<Rightarrow> bool" where
  "exceeds Infinite t = True"
| "exceeds (Finite c) t = (c > t)"

definition calculate_landmark_change :: "landmarks \<Rightarrow> landmarks option \<Rightarrow> error + change" where
  "calculate_landmark_change current_landmarks previous_landmarks =
     (case previous_landmarks of
        None \<Rightarrow> Inr Infinite
      | Some previous \<Rightarrow>
          (case rows_sub current_landmarks previous of
             Inl e \<Rightarrow> Inl e
           | Inr deltas \<Rightarrow>
               (let distances = map point_norm deltas in
                case extent (map px current_landmarks) of
                  Inl e \<Rightarrow> Inl e
                | Inr w \<Rightarrow>
                    (case extent (map py current_landmarks) of
                       Inl e \<Rightarrow> Inl e
                     | Inr h \<Rightarrow>
                         (let face_size = sqrt (w * w + h * h)
                          in Inr (Finite (if face_size > 0 then np_mean distances / face_size
                                          else 0)))))))"

text \<open>The three nested helpers of \<open>calculate_expression_change\<close>. \<open>eye_aspect_ratio\<close>
  receives the six rows picked by the index list.\<close>

definition eye_aspect_ratio :: "landmarks \<Rightarrow> real" where
  "eye_aspect_ratio eye_points =
     (let vertical = np_mean [point_norm (point_sub (eye_points ! 1) (eye_points ! 5)),
                              point_norm (point_sub (eye_points ! 2) (eye_points ! 4))];
          horizontal = point_norm (point_sub (eye_points ! 0) (eye_points ! 3))
      in if horizontal > 0 then vertical / (2 * horizontal) else 0)"

definition mouth_aspect_ratio :: "landmarks \<Rightarrow> real" where
  "mouth_aspect_ratio lm =
     (let vertical = point_norm (point_sub (lm ! 13) (lm ! 14));
          horizontal = point_norm (point_sub (lm ! 78) (lm ! 308))
      in if horizontal > 0 then vertical / horizontal else 0)"

definition eyebrow_position :: "landmarks \<Rightarrow> real" where
  "eyebrow_position lm =
     np_mean [py (lm ! 282) - py (lm ! 257), py (lm ! 52) - py (lm ! 27)]"

text \<open>\<open>calculate_expression_change\<close> for a previous array that is not \<open>None\<close>. The
  largest index read is 308, in both arrays; a shorter array raises \<open>IndexError\<close>.\<close>

definition calculate_expression_change ::
  "landmarks \<Rightarrow> landmarks \<Rightarrow> error + (string \<times> real) list"
where
  "calculate_expression_change current_landmarks previous_landmarks =
     (if length current_landmarks \<le> 308 \<or> length previous_landmarks \<le> 308 then Inl IndexError
      else
        (let left_eye_curr =
               eye_aspect_ratio (map (\<lambda>i. current_landmarks ! i) [33, 160, 158, 133, 153, 144]);
             left_eye_prev =
               eye_aspect_ratio (map (\<lambda>i. previous_landmarks ! i) [33, 160, 158, 133, 153, 144]);
             mouth_curr = mouth_aspect_ratio current_landmarks;
             mouth_prev = mouth_aspect_ratio previous_landmarks;
             eyebrow_curr = eyebrow_position current_landmarks;
             eyebrow_prev = eyebrow_position previous_landmarks
         in Inr [(''eye_aspect_ratio'', \<bar>left_eye_curr - left_eye_prev\<bar>),
                 (''mouth_aspect_ratio'', \<bar>mouth_curr - mouth_prev\<bar>),
                 (''eyebrow_position'', \<bar>eyebrow_curr - eyebrow_prev\<bar> / 100)]))"

text \<open>\<open>expression_changes.get(k, 0)\<close>.\<close>

definition get_change :: "(string \<times> real) list \<Rightarrow> string \<Rightarrow> real" where
  "get_change changes k = (case map_of changes k of None \<Rightarrow> 0 | Some v \<Rightarrow> v)"

text \<open>The \<open>any(...)\<close> over the keys of \<open>EXPRESSION_METRICS\<close>; each key is looked up in the
  dictionary it comes from, so the default \<open>inf\<close> is never used.\<close>

definition expression_exceeds :: "(string \<times> real) list \<Rightarrow> (string \<times> real) list \<Rightarrow> bool" where
  "expression_exceeds metrics changes =
     list_ex (\<lambda>(k, limit). \<bar>get_change changes k\<bar> > limit) metrics"

definition pose_exceeds :: "pose \<Rightarrow> pose \<Rightarrow> pose \<Rightarrow> bool" where
  "pose_exceeds limits head_pose previous \<longleftrightarrow>
     \<bar>pitch head_pose - pitch previous\<bar> > pitch limits \<or>
     \<bar>yaw head_pose - yaw previous\<bar> > yaw limits \<or>
     \<bar>roll head_pose - roll previous\<bar> > roll limits"

text \<open>\<open>should_save_frame\<close>. The reading of the clock is the argument \<open>current_time\<close>;
  the detector is passed in and returned. Every exception is raised before the first
  assignment to a field, so a raising call leaves the detector as it was.\<close>

definition should_save_frame ::
  "thresholds \<Rightarrow> change_detector \<Rightarrow> real \<Rightarrow> landmarks \<Rightarrow> pose option
     \<Rightarrow> error + (bool \<times> change_detector)"
where
  "should_save_frame thr self current_time landmarks_array head_pose =
     (if (case last_save_time self of
            None \<Rightarrow> False
          | Some last_time \<Rightarrow> current_time - last_time < MIN_FRAME_INTERVAL thr)
      then Inr (False, self)
      else if frame_count self \<ge> MAX_STORED_FRAMES thr then Inr (False, self)
      else
        (case calculate_landmark_change landmarks_array (last_landmarks self) of
           Inl e \<Rightarrow> Inl e
         | Inr landmark_change \<Rightarrow>
             (case (case last_landmarks self of
                      None \<Rightarrow> Inr True
                    | Some previous \<Rightarrow>
                        (case calculate_expression_change landmarks_array previous of
                           Inl e \<Rightarrow> Inl e
                         | Inr expression_changes \<Rightarrow>
                             Inr (expression_exceeds (EXPRESSION_METRICS thr) expression_changes)))
              of
                Inl e \<Rightarrow> Inl e
              | Inr expression_changed \<Rightarrow>
                  (let pose_changed =
                         (case (last_pose self, head_pose) of
                            (Some previous, Some current) \<Rightarrow>
                              pose_exceeds (HEAD_POSE_THRESHOLD thr) current previous
                          | _ \<Rightarrow> False);
                       should_save =
                         (exceeds landmark_change (LANDMARK_CHANGE_THRESHOLD thr)
                          \<or> pose_changed \<or> expression_changed)
                   in if should_save then
                        Inr (True,
                             \<lparr>last_landmarks = Some landmarks_array,
                              last_pose = head_pose,
                              last_save_time = Some current_time,
                              frame_count = frame_count self + 1\<rparr>)
                      else Inr (False, self)))))"

text \<open>One observation: the time at which it is examined, the landmarks and the head pose.\<close>

type_synonym observation = "real \<times> landmarks \<times> pose option"

text \<open>Feeding a sequence of observations to one detector. A call that raises leaves the
  detector unchanged.\<close>

fun feed :: "thresholds \<Rightarrow> change_detector \<Rightarrow> observation list \<Rightarrow> change_detector" where
  "feed thr self [] = self"
| "feed thr self ((current_time, landmarks_array, head_pose) # rest) =
     (case should_save_frame thr self current_time landmarks_array head_pose of
        Inl e \<Rightarrow> feed thr self rest
      | Inr (saved, self') \<Rightarrow> feed thr self' rest)"

text \<open>The detector after one admission at time 0.\<close>

abbreviation admitted_once :: change_detector where
  "admitted_once \<equiv>
     \<lparr>last_landmarks = Some [(0, 0, 0), (3, 4, 0)], last_pose = None,
      last_save_time = Some 0, frame_count = 1\<rparr>"

section \<open>Expression classifier (expression\_analyzer.py)\<close>

datatype Expression = NEUTRAL | SMILE | FROWN | SURPRISE | SQUINT

text \<open>The dictionary \<open>characteristics\<close> of \<open>_classify_expression\<close>, in insertion order.\<close>

definition characteristics :: "(Expression \<times> (string \<times> real) list) list" where
  "characteristics =
     [(SMILE, [(''mouth_width_ratio'', 1.2), (''mouth_openness'', 0.3), (''brow_height'', 0.0)]),
      (FROWN, [(''mouth_width_ratio'', 0.8), (''mouth_openness'', -0.2), (''brow_height'', -0.2)]),
      (SURPRISE, [(''mouth_openness'', 0.5), (''brow_height'', 0.3)]),
      (SQUINT, [(''left_eye_openness'', -0.3), (''right_eye_openness'', -0.3),
                (''brow_height'', -0.1)])]"

text \<open>The loop of \<open>_calculate_expression_score\<close>: one difference for each key of the
  characteristics that the metrics have.\<close>

fun differences :: "(string \<rightharpoonup> real) \<Rightarrow> (string \<times> real) list \<Rightarrow> real list" where
  "differences metrics [] = []"
| "differences metrics ((key, target) # rest) =
     (case metrics key of
        None \<Rightarrow> differences metrics rest
      | Some v \<Rightarrow> \<bar>v - target\<bar> # differences metrics rest)"

definition calculate_expression_score :: "(string \<rightharpoonup> real) \<Rightarrow> (string \<times> real) list \<Rightarrow> real" where
  "calculate_expression_score metrics chars =
     (let ds = differences metrics chars
      in if ds = [] then 0 else 1 - np_mean ds)"

text \<open>Python's \<open>max(iterable, key=...)\<close> on a non-empty iterable, split into its first
  item and the rest: a later item replaces the best one only when its key is strictly
  greater.\<close>

fun py_max_key :: "('a \<Rightarrow> real) \<Rightarrow> 'a \<Rightarrow> 'a list \<Rightarrow> 'a" where
  "py_max_key key best [] = best"
| "py_max_key key best (x # xs) = py_max_key key (if key x > key best then x else best) xs"

text \<open>\<open>_classify_expression\<close>. \<open>max\<close> raises \<open>ValueError\<close> on an empty sequence. The
  movement metrics are not read.\<close>

definition classify_expression ::
  "real \<Rightarrow> (string \<rightharpoonup> real) \<Rightarrow> error + (Expression \<times> real)"
where
  "classify_expression neutral_threshold expression_metrics =
     (let scores = map (\<lambda>(expression, chars).
                          (expression, calculate_expression_score expression_metrics chars))
                       characteristics
      in case scores of
           [] \<Rightarrow> Inl ValueError
         | first # rest \<Rightarrow>
             (let max_score = py_max_key id (snd first) (map snd rest)
              in if max_score < neutral_threshold then Inr (NEUTRAL, 1 - max_score)
                 else Inr (fst (py_max_key snd first rest), max_score)))"

text \<open>The score that the classifier gives to one expression, and the place of an
  expression in the enumeration \<open>smile, frown, surprise, squint\<close>.\<close>

definition expression_score :: "(string \<rightharpoonup> real) \<Rightarrow> Expression \<Rightarrow> real" where
  "expression_score metrics e =
     (case map_of characteristics e of
        None \<Rightarrow> 0
      | Some chars \<Rightarrow> calculate_expression_score metrics chars)"

fun enumeration_rank :: "Expression \<Rightarrow> nat" where
  "enumeration_rank SMILE = 0"
| "enumeration_rank FROWN = 1"
| "enumeration_rank SURPRISE = 2"
| "enumeration_rank SQUINT = 3"
| "enumeration_rank NEUTRAL = 4"

section \<open>NumPy floats\<close>

text \<open>
  Where NumPy divides, a zero divisor does not raise: the quotient is \<open>inf\<close>, \<open>-inf\<close> or
  \<open>nan\<close> (with a warning). Results of such divisions are values of \<open>npfloat\<close>. Inputs are
  finite; rounding, overflow and the sign of zero are not modelled (every divisor below is
  a norm or a difference \<open>max - min\<close>, whose zero is \<open>+0.0\<close>).
\<close>

datatype npfloat = Fin real | PosInf | NegInf | NaN

fun np_divide :: "npfloat \<Rightarrow> npfloat \<Rightarrow> npfloat" where
  "np_divide (Fin a) (Fin b) =
     (if b \<noteq> 0 then Fin (a / b)
      else if a > 0 then PosInf else if a < 0 then NegInf else NaN)"
| "np_divide (Fin a) PosInf = Fin 0"
| "np_divide (Fin a) NegInf = Fin 0"
| "np_divide PosInf (Fin b) = (if b \<ge> 0 then PosInf else NegInf)"
| "np_divide NegInf (Fin b) = (if b \<ge> 0 then NegInf else PosInf)"
| "np_divide _ _ = NaN"

fun np_subtract :: "npfloat \<Rightarrow> npfloat \<Rightarrow> npfloat" where
  "np_subtract (Fin a) (Fin b) = Fin (a - b)"
| "np_subtract (Fin a) PosInf = NegInf"
| "np_subtract (Fin a) NegInf = PosInf"
| "np_subtract PosInf (Fin b) = PosInf"
| "np_subtract NegInf (Fin b) = NegInf"
| "np_subtract PosInf NegInf = PosInf"
| "np_subtract NegInf PosInf = NegInf"
| "np_subtract _ _ = NaN"

text \<open>Fancy indexing \<open>array[indices]\<close>: the rows at the given indices, \<open>IndexError\<close> when
  an index is out of range.\<close>

fun take_rows :: "'a list \<Rightarrow> nat list \<Rightarrow> error + 'a list" where
  "take_rows arr [] = Inr []"
| "take_rows arr (i # rest) =
     (if i < length arr then
        (case take_rows arr rest of Inl e \<Rightarrow> Inl e | Inr rows \<Rightarrow> Inr (arr ! i # rows))
      else Inl IndexError)"

section \<open>Landmark geometry (geometry\_analyzer.py)\<close>

text \<open>The entries of the feature index map that the geometry analyzer reads. The table
  itself is supplied by the landmark detector; it is a parameter here.\<close>

record feature_indices =
  face_contour :: "nat list"
  left_eye :: "nat list"
  right_eye :: "nat list"
  nose_bridge :: "nat list"
  mouth :: "nat list"

text \<open>\<open>np.mean(rows, axis=0)\<close>: the centroid, or a row of \<open>nan\<close> (here \<open>None\<close>) when there
  are no rows.\<close>

definition mean_point :: "landmarks \<Rightarrow> point option" where
  "mean_point rows =
     (if rows = [] then None
      else Some (np_mean (map px rows), np_mean (map py rows), np_mean (map pz rows)))"

text \<open>The norm of the difference of two centroids; \<open>nan\<close> when one of them is.\<close>

definition centroid_distance :: "point option \<Rightarrow> point option \<Rightarrow> npfloat" where
  "centroid_distance a b =
     (case (a, b) of
        (Some p, Some q) \<Rightarrow> Fin (point_norm (point_sub p q))
      | _ \<Rightarrow> NaN)"

record proportions =
  width_height_ratio :: npfloat
  eye_spacing_ratio :: npfloat
  nose_face_ratio :: npfloat
  mouth_face_ratio :: npfloat

text \<open>\<open>calculate_proportions\<close>, statement by statement. \<open>nose_bridge[-1]\<close>,
  \<open>nose_bridge[0]\<close>, \<open>mouth_points[0]\<close> and \<open>mouth_points[1]\<close> raise \<open>IndexError\<close> when
  the row is missing.\<close>

definition calculate_proportions :: "feature_indices \<Rightarrow> landmarks \<Rightarrow> error + proportions" where
  "calculate_proportions idx landmarks =
     (case take_rows landmarks (face_contour idx) of
        Inl e \<Rightarrow> Inl e
      | Inr contour_points \<Rightarrow>
     (case extent (map px contour_points) of
        Inl e \<Rightarrow> Inl e
      | Inr face_width \<Rightarrow>
     (case extent (map py contour_points) of
        Inl e \<Rightarrow> Inl e
      | Inr face_height \<Rightarrow>
     (case take_rows landmarks (left_eye idx) of
        Inl e \<Rightarrow> Inl e
      | Inr left_eye_points \<Rightarrow>
     (case take_rows landmarks (right_eye idx) of
        Inl e \<Rightarrow> Inl e
      | Inr right_eye_points \<Rightarrow>
     (let eye_distance =
            centroid_distance (mean_point right_eye_points) (mean_point left_eye_points)
      in
     (case take_rows landmarks (nose_bridge idx) of
        Inl e \<Rightarrow> Inl e
      | Inr nose_bridge_points \<Rightarrow>
          if nose_bridge_points = [] then Inl IndexError
          else
     (let nose_length =
            point_norm (point_sub (last nose_bridge_points) (hd nose_bridge_points))
      in
     (case take_rows landmarks (mouth idx) of
        Inl e \<Rightarrow> Inl e
      | Inr mouth_points \<Rightarrow>
          if length mouth_points < 2 then Inl IndexError
          else
     (let mouth_width = point_norm (point_sub (mouth_points ! 0) (mouth_points ! 1))
      in Inr \<lparr>width_height_ratio = np_divide (Fin face_width) (Fin face_height),
              eye_spacing_ratio = np_divide eye_distance (Fin face_width),
              nose_face_ratio = np_divide (Fin nose_length) (Fin face_height),
              mouth_face_ratio = np_divide (Fin mouth_width) (Fin face_width)\<rparr>))))))))))"

text \<open>\<open>np.std\<close> of a non-empty sequence.\<close>

definition np_std :: "real list \<Rightarrow> real" where
  "np_std xs = sqrt (np_mean (map (\<lambda>x. (x - np_mean xs) * (x - np_mean xs)) xs))"

text \<open>The \<open>jaw_width\<close> and \<open>roundness\<close> entries of \<open>analyze_face_shape\<close>; the third
  entry, \<open>jaw_angle\<close>, is computed after them and does not raise.\<close>

definition analyze_face_shape :: "feature_indices \<Rightarrow> landmarks \<Rightarrow> error + (real \<times> npfloat)" where
  "analyze_face_shape idx landmarks =
     (case take_rows landmarks (face_contour idx) of
        Inl e \<Rightarrow> Inl e
      | Inr contour \<Rightarrow>
          if contour = [] then Inl IndexError
          else
            (let jaw_width = point_norm (point_sub (hd contour) (last contour));
                 center = (np_mean (map px contour), np_mean (map py contour),
                           np_mean (map pz contour));
                 distances = map (\<lambda>p. point_norm (point_sub p center)) contour;
                 roundness =
                   np_subtract (Fin 1)
                     (np_divide (Fin (np_std distances)) (Fin (np_mean distances)))
             in Inr (jaw_width, roundness)))"

text \<open>A feature index map over two landmarks.\<close>

abbreviation flat_indices :: feature_indices where
  "flat_indices \<equiv>
     \<lparr>face_contour = [0, 1], left_eye = [0], right_eye = [1], nose_bridge = [0, 1],
      mouth = [0, 1]\<rparr>"

section \<open>Mesh metrics (mesh\_generator.py)\<close>

definition cross :: "point \<Rightarrow> point \<Rightarrow> point" where
  "cross a b =
     (py a * pz b - pz a * py b, pz a * px b - px a * pz b, px a * py b - py a * px b)"

text \<open>A face is a row of three vertex indices; \<open>vertices[faces]\<close> raises \<open>IndexError\<close> on
  an index out of range.\<close>

type_synonym face = "nat \<times> nat \<times> nat"

fun face_vertices :: "landmarks \<Rightarrow> face list \<Rightarrow> error + (point \<times> point \<times> point) list" where
  "face_vertices vertices [] = Inr []"
| "face_vertices vertices ((i, j, k) # rest) =
     (if i < length vertices \<and> j < length vertices \<and> k < length vertices then
        (case face_vertices vertices rest of
           Inl e \<Rightarrow> Inl e
         | Inr rows \<Rightarrow> Inr ((vertices ! i, vertices ! j, vertices ! k) # rows))
      else Inl IndexError)"

text \<open>One row of \<open>face_normals / np.linalg.norm(face_normals, axis=1, keepdims=True)\<close>:
  each component is divided by the norm of the row.\<close>

definition divide_by_norm :: "point \<Rightarrow> npfloat \<times> npfloat \<times> npfloat" where
  "divide_by_norm n =
     (np_divide (Fin (px n)) (Fin (point_norm n)),
      np_divide (Fin (py n)) (Fin (point_norm n)),
      np_divide (Fin (pz n)) (Fin (point_norm n)))"

record face_metrics =
  areas :: "real list"
  normals :: "(npfloat \<times> npfloat \<times> npfloat) list"
  mean_area :: npfloat
  total_area :: real

text \<open>\<open>_calculate_face_metrics\<close>. \<open>np.mean\<close> of no areas is \<open>nan\<close>.\<close>

definition calculate_face_metrics :: "landmarks \<Rightarrow> face list \<Rightarrow> error + face_metrics" where
  "calculate_face_metrics vertices faces =
     (case face_vertices vertices faces of
        Inl e \<Rightarrow> Inl e
      | Inr rows \<Rightarrow>
          (let v1 = map (\<lambda>(a, b, c). point_sub b a) rows;
               v2 = map (\<lambda>(a, b, c). point_sub c a) rows;
               face_normals = map (\<lambda>(u, v). cross u v) (zip v1 v2);
               face_areas = map (\<lambda>n. point_norm n / 2) face_normals
           in Inr \<lparr>areas = face_areas,
                   normals = map divide_by_norm face_normals,
                   mean_area = (if face_areas = [] then NaN else Fin (np_mean face_areas)),
                   total_area = sum_list face_areas\<rparr>))"

text \<open>The cross product of the two edge vectors of a face that leave its first vertex.\<close>

definition edge_cross :: "landmarks \<Rightarrow> face \<Rightarrow> point" where
  "edge_cross vertices f =
     (case f of (i, j, k) \<Rightarrow>
        cross (point_sub (vertices ! j) (vertices ! i)) (point_sub (vertices ! k) (vertices ! i)))"

text \<open>Every index of every face is a row of the vertex array.\<close>

definition faces_in_range :: "landmarks \<Rightarrow> face list \<Rightarrow> bool" where
  "faces_in_range vertices faces \<longleftrightarrow>
     (\<forall>(i, j, k) \<in> set faces. i < length vertices \<and> j < length vertices \<and> k < length vertices)"

section \<open>Depth map (depth\_mapper.py)\<close>

text \<open>
  A grid is the list of its cells in storage order; a cell is \<open>None\<close> where the array
  holds \<open>nan\<close>. The interpolation, the rasterised hull and the blur are computed by
  library routines (\<open>scipy.interpolate.griddata\<close>, \<open>cv2.convexHull\<close> with
  \<open>cv2.fillConvexPoly\<close>, \<open>cv2.GaussianBlur\<close>). What they return is a parameter of the
  model: \<open>linear_grid\<close> and \<open>nearest_grid\<close> are the two grids that \<open>griddata\<close> returns for the
  methods of these names, \<open>face_mask\<close> is the grid that \<open>_create_face_mask\<close> returns, and
  \<open>blur\<close> is the smoothing of the sequence of valid depths. All grids have the shape
  \<open>resolution\<close>.
\<close>

type_synonym grid = "real option list"

text \<open>\<open>np.isnan(depth_map) & face_mask\<close>, cell by cell.\<close>

definition nan_in_mask :: "grid \<Rightarrow> bool list \<Rightarrow> bool list" where
  "nan_in_mask depth_map face_mask = map (\<lambda>(d, m). d = None \<and> m) (zip depth_map face_mask)"

text \<open>\<open>np.where(condition, nn_interpolated, depth_map)\<close>.\<close>

definition np_where :: "bool list \<Rightarrow> grid \<Rightarrow> grid \<Rightarrow> grid" where
  "np_where condition a b = map (\<lambda>(c, x, y). if c then x else y) (zip condition (zip a b))"

text \<open>The fill step: only when some cell of the mask is \<open>nan\<close>, those cells take the
  nearest-neighbour value; every other cell keeps its value.\<close>

definition fill_in_mask :: "grid \<Rightarrow> grid \<Rightarrow> bool list \<Rightarrow> grid" where
  "fill_in_mask linear_grid nearest_grid face_mask =
     (if list_ex id (nan_in_mask linear_grid face_mask)
      then np_where (nan_in_mask linear_grid face_mask) nearest_grid linear_grid
      else linear_grid)"

text \<open>\<open>result[valid_mask] = smoothed\<close> on a grid of \<open>nan\<close>: the valid cells receive the
  smoothed values in order.\<close>

fun assign_valid :: "grid \<Rightarrow> real list \<Rightarrow> grid" where
  "assign_valid [] smoothed = []"
| "assign_valid (None # cells) smoothed = None # assign_valid cells smoothed"
| "assign_valid (Some d # cells) [] = None # assign_valid cells []"
| "assign_valid (Some d # cells) (s # smoothed) = Some s # assign_valid cells smoothed"

text \<open>The smoothing step. The assignment raises \<open>ValueError\<close> when the number of
  smoothed values is not the number of valid cells.\<close>

definition smooth_valid :: "(real list \<Rightarrow> real list) \<Rightarrow> grid \<Rightarrow> error + grid" where
  "smooth_valid blur depth_map =
     (let valid_depths = List.map_filter id depth_map in
      if valid_depths \<noteq> [] then
        (let smoothed = blur valid_depths in
         if length smoothed = length valid_depths then Inr (assign_valid depth_map smoothed)
         else Inl ValueError)
      else Inr depth_map)"

text \<open>\<open>create_depth_map\<close> from the interpolation on.\<close>

definition create_depth_map ::
  "grid \<Rightarrow> grid \<Rightarrow> bool list \<Rightarrow> (real list \<Rightarrow> real list) \<Rightarrow> error + grid"
where
  "create_depth_map linear_grid nearest_grid face_mask blur =
     smooth_valid blur (fill_in_mask linear_grid nearest_grid face_mask)"

text \<open>A blur that returns as many values as it is given, as \<open>cv2.GaussianBlur\<close> does.\<close>

definition keeps_length :: "(real list \<Rightarrow> real list) \<Rightarrow> bool" where
  "keeps_length blur \<longleftrightarrow> (\<forall>xs. length (blur xs) = length xs)"

section \<open>Properties\<close>

lemma np_mean_all_one: "xs \<noteq> [] \<Longrightarrow> \<forall>x\<in>set xs. x = 1 \<Longrightarrow> np_mean xs = 1"
proof -
  assume ne: "xs \<noteq> []" and all: "\<forall>x\<in>set xs. x = 1"
  have "sum_list xs = real (length xs)" using all by (induction xs) auto
  with ne show ?thesis by (simp add: np_mean_def)
qed

lemma geometry_matches_char:
  "geometry_matches tol pg cg =
     (if geometry_denominators_nonzero tol pg cg
      then Inr (expected_geometry_scores tol pg cg)
      else Inl ZeroDivisionError)"
proof (induction pg)
  case Nil
  then show ?case
    by (simp add: geometry_denominators_nonzero_def expected_geometry_scores_def)
next
  case (Cons a pg)
  obtain m st where a: "a = (m, st)" by (cases a)
  show ?case
  proof (cases "map_of cg m")
    case None
    then show ?thesis using Cons a
      by (simp add: geometry_denominators_nonzero_def expected_geometry_scores_def)
  next
    case (Some v)
    then show ?thesis using Cons a
      by (auto simp: geometry_metric_score_def geometry_denominators_nonzero_def
            expected_geometry_scores_def Let_def split: sum.splits)
  qed
qed

lemma expected_scores_mem:
  "(m, st) \<in> set pg \<Longrightarrow> map_of cg m = Some v \<Longrightarrow>
     max 0 (1 - \<bar>v - stat_mean st\<bar> / (stat_mean st * get_threshold tol m))
       \<in> set (expected_geometry_scores tol pg cg)"
  by (force simp: expected_geometry_scores_def map_filter_def image_iff)

lemma expected_scores_length: "length (expected_geometry_scores tol pg cg) \<le> length pg"
  by (simp add: expected_geometry_scores_def map_filter_def)

lemma map_snd_zip_short: "length ys \<le> length xs \<Longrightarrow> map snd (zip xs ys) = ys"
  by (simp add: map_snd_zip_take)

lemma verify_geometry_char:
  "pg \<noteq> [] \<Longrightarrow> cg \<noteq> [] \<Longrightarrow> geometry_denominators_nonzero tol pg cg \<Longrightarrow>
     verify_geometry tol (Some pg) (Some cg) =
       Inr \<lparr>match_score = (if expected_geometry_scores tol pg cg \<noteq> []
                              then np_mean (expected_geometry_scores tol pg cg) else 0),
            error_msg = None,
            item_scores = zip (map fst pg) (expected_geometry_scores tol pg cg),
            color_difference = None\<rparr>"
  by (simp add: verify_geometry_def geometry_matches_char)

lemma verify_geometry_scores:
  assumes "(m, st) \<in> set pg" and "map_of cg m = Some live"
    and "geometry_denominators_nonzero tol pg cg"
  shows "\<exists>r. verify_geometry tol (Some pg) (Some cg) = Inr r
           \<and> error_msg r = None
           \<and> map snd (item_scores r) = expected_geometry_scores tol pg cg
           \<and> max 0 (1 - \<bar>live - stat_mean st\<bar> / (stat_mean st * get_threshold tol m))
                \<in> set (map snd (item_scores r))
           \<and> match_score r = np_mean (map snd (item_scores r))"
proof -
  have pg: "pg \<noteq> []" using assms(1) by auto
  have cg: "cg \<noteq> []" using assms(2) by auto
  have mem: "max 0 (1 - \<bar>live - stat_mean st\<bar> / (stat_mean st * get_threshold tol m))
       \<in> set (expected_geometry_scores tol pg cg)"
    using assms(1,2) by (rule expected_scores_mem)
  then have ne: "expected_geometry_scores tol pg cg \<noteq> []" by auto
  let ?r = "\<lparr>match_score = np_mean (expected_geometry_scores tol pg cg),
            error_msg = None,
            item_scores = zip (map fst pg) (expected_geometry_scores tol pg cg),
            color_difference = None\<rparr>"
  have run: "verify_geometry tol (Some pg) (Some cg) = Inr ?r"
    using ne by (simp add: verify_geometry_char[OF pg cg assms(3)])
  have ms: "map snd (item_scores ?r) = expected_geometry_scores tol pg cg"
    by (simp add: map_snd_zip_short expected_scores_length)
  have "match_score ?r = np_mean (map snd (item_scores ?r))"
    unfolding ms by simp
  moreover have "error_msg ?r = None" by simp
  ultimately show ?thesis using run ms mem by metis
qed

lemma get_threshold_default:
  "tol m = None \<Longrightarrow> get_threshold (tol(m \<mapsto> 0.1)) m' = get_threshold tol m'"
  by (simp add: get_threshold_def)

lemma geometry_matches_default:
  "tol m = None \<Longrightarrow> geometry_matches (tol(m \<mapsto> 0.1)) pg cg = geometry_matches tol pg cg"
  by (induction pg) (auto simp: get_threshold_default split: option.splits sum.splits)

lemma verify_geometry_default:
  "tol m = None \<Longrightarrow>
     verify_geometry (tol(m \<mapsto> 0.1)) pgo cgo = verify_geometry tol pgo cgo"
  using geometry_matches_default[of tol m]
  by (simp add: verify_geometry_def split: option.splits)

lemma verify_geometry_no_key_error: "verify_geometry tol pgo cgo \<noteq> Inl KeyError"
  by (auto simp: verify_geometry_def geometry_matches_char split: option.splits)

lemma expected_scores_exact:
  "\<forall>(m, st) \<in> set pg. \<forall>live. map_of cg m = Some live \<longrightarrow> live = stat_mean st \<Longrightarrow>
     \<forall>x \<in> set (expected_geometry_scores tol pg cg). x = 1"
  by (auto simp: expected_geometry_scores_def map_filter_def)

lemma verify_geometry_exact:
  assumes "geometry_equals_mean tol pg cg"
  shows "\<exists>g. verify_geometry tol (Some pg) (Some cg) = Inr g \<and> match_score g = 1"
proof -
  from assms obtain m st live where in_pg: "(m, st) \<in> set pg" and in_cg: "map_of cg m = Some live"
    by (auto simp: geometry_equals_mean_def)
  have pg: "pg \<noteq> []" using in_pg by auto
  have cg: "cg \<noteq> []" using in_cg by auto
  have nz: "geometry_denominators_nonzero tol pg cg"
    using assms by (auto simp: geometry_equals_mean_def geometry_denominators_nonzero_def)
  have ones: "\<forall>x \<in> set (expected_geometry_scores tol pg cg). x = 1"
    using assms by (intro expected_scores_exact) (auto simp: geometry_equals_mean_def)
  have ne: "expected_geometry_scores tol pg cg \<noteq> []"
    using expected_scores_mem[OF in_pg in_cg, of tol] by auto
  show ?thesis
    using ne np_mean_all_one[OF ne ones] by (simp add: verify_geometry_char[OF pg cg nz])
qed

lemma pose_matches_exact:
  "\<forall>axis \<in> set axes. \<forall>live st. map_of cp axis = Some live \<and> map_of pp axis = Some st \<longrightarrow>
        live = pose_mean st \<and> (\<exists>t. tol axis = Some t \<and> t \<noteq> 0) \<Longrightarrow>
   \<exists>ms. pose_matches tol axes pp cp = Inr ms \<and> (\<forall>x \<in> set ms. x = 1) \<and>
        (ms \<noteq> [] \<longleftrightarrow> (\<exists>axis \<in> set axes. map_of cp axis \<noteq> None \<and> map_of pp axis \<noteq> None))"
proof (induction axes)
  case Nil
  then show ?case by simp
next
  case (Cons a axes)
  then obtain ms where ih: "pose_matches tol axes pp cp = Inr ms" "\<forall>x \<in> set ms. x = 1"
    "ms \<noteq> [] \<longleftrightarrow> (\<exists>axis \<in> set axes. map_of cp axis \<noteq> None \<and> map_of pp axis \<noteq> None)"
    by auto
  show ?case
  proof (cases "map_of cp a")
    case None
    then show ?thesis using ih by simp
  next
    case (Some live)
    note live = this
    show ?thesis
    proof (cases "map_of pp a")
      case None
      then show ?thesis using ih live by simp
    next
      case (Some st)
      with live Cons.prems obtain t where "live = pose_mean st" "tol a = Some t" "t \<noteq> 0"
        by auto
      then show ?thesis using ih live Some
        by (simp add: pose_axis_score_def)
    qed
  qed
qed

lemma verify_pose_exact:
  assumes "pose_equals_mean tol pp cp"
  shows "\<exists>po. verify_pose tol (Some pp) (Some cp) = Inr po \<and> match_score po = 1"
proof -
  from assms have pp: "pp \<noteq> []" and cp: "cp \<noteq> []"
    by (auto simp: pose_equals_mean_def)
  from assms obtain ms where ms: "pose_matches tol [''pitch'', ''yaw'', ''roll''] pp cp = Inr ms"
    "\<forall>x \<in> set ms. x = 1" "ms \<noteq> []"
    using pose_matches_exact[of "[''pitch'', ''yaw'', ''roll'']" cp pp tol]
    unfolding pose_equals_mean_def by blast
  show ?thesis
    using pp cp ms np_mean_all_one[OF ms(3) ms(2)] by (simp add: verify_pose_def)
qed

lemma np_norm_self_difference: "np_norm (map (\<lambda>(x, y). x - y) (zip xs xs)) = 0"
proof -
  have "sum_list (map (\<lambda>x. x * x) (map (\<lambda>(x, y). x - y) (zip xs xs))) = (0::real)"
    by (induction xs) auto
  then show ?thesis by (simp add: np_norm_def)
qed

lemma verify_color_exact:
  assumes "color_equals_mean tol pc cc"
  shows "\<exists>co. verify_color tol (Some pc) (Some cc) = Inr co \<and> match_score co = 1"
  using assms
  by (auto simp: color_equals_mean_def verify_color_def np_sub_def np_norm_self_difference)

lemma verify_biometric_scored:
  assumes "\<not> not_profile (Some p)" and "\<not> not_current_data (Some c)"
    and "verify_geometry tol (dict_get (p_geometry p)) (dict_get (c_geometry c)) = Inr g"
    and "verify_pose tol (dict_get (p_pose p)) (dict_get (c_pose c)) = Inr po"
    and "verify_color tol (dict_get (p_color p)) (dict_get (c_color c)) = Inr co"
  shows "verify_biometric tol (Some p) (Some c) =
           Inr ((match_score g + match_score po + match_score co) / 3 \<ge> 0.8,
                ScoreInfo ((match_score g + match_score po + match_score co) / 3)
                  [(''geometry'', g), (''pose'', po), (''color'', co)])"
  using assms by (simp add: verify_biometric_def np_mean_def add.assoc)

lemma verify_biometric_result:
  assumes "verify_biometric tol (Some p) (Some c) = Inr (accept, info)"
    and "\<not> not_profile (Some p)" and "\<not> not_current_data (Some c)"
  shows "\<exists>g po co.
           verify_geometry tol (dict_get (p_geometry p)) (dict_get (c_geometry c)) = Inr g \<and>
           verify_pose tol (dict_get (p_pose p)) (dict_get (c_pose c)) = Inr po \<and>
           verify_color tol (dict_get (p_color p)) (dict_get (c_color c)) = Inr co \<and>
           info = ScoreInfo ((match_score g + match_score po + match_score co) / 3)
                    [(''geometry'', g), (''pose'', po), (''color'', co)] \<and>
           (accept \<longleftrightarrow> (match_score g + match_score po + match_score co) / 3 \<ge> 0.8)"
  using assms
  by (auto simp: verify_biometric_def np_mean_def add.assoc split: sum.splits)

lemma default_tolerances_simps:
  "default_tolerances ''eye_distance'' = Some 0.1"
  "default_tolerances ''nose_angle'' = Some 5"
  "default_tolerances ''face_width_height_ratio'' = Some 0.05"
  "default_tolerances ''pitch'' = Some 15"
  "default_tolerances ''yaw'' = Some 15"
  "default_tolerances ''roll'' = Some 15"
  "default_tolerances ''color_tolerance'' = Some 25"
  "default_tolerances ''jaw_width'' = None"
  by (simp_all add: default_tolerances_def)

subsection \<open>Missing data\<close>

text \<open>
  Claim C2. When the profile argument or the live-data argument of \<open>verify_biometric\<close> is
  absent (\<open>None\<close> or an empty dictionary), the call returns a reject that carries the
  reason \<open>Missing profile or current data\<close>. The result is not a scored rejection, and no
  category is scored: the result does not depend on what scoring would have done.
\<close>

theorem verify_biometric_missing_data:
  assumes "not_profile profile \<or> not_current_data current_data"
  shows "verify_biometric tol profile current_data =
           Inr (False, ErrorInfo ''Missing profile or current data'') \<and>
         (\<forall>accept score details.
            verify_biometric tol profile current_data \<noteq> Inr (accept, ScoreInfo score details))"
  using assms by (simp add: verify_biometric_def)

theorem verify_biometric_missing_data_witness:
  "not_profile None \<and>
   verify_biometric default_tolerances None (Some (example_features [(''eye_distance'', 60)])) =
     Inr (False, ErrorInfo ''Missing profile or current data'')"
  using verify_biometric_missing_data[of None "Some (example_features [(''eye_distance'', 60)])" default_tolerances]
  by (simp add: not_profile_def)

subsection \<open>The acceptance decision\<close>

text \<open>
  Claim C1, as stated, fails on a stored geometry mean of zero: the live value equals the
  mean, yet \<open>max_allowed_diff\<close> is zero and the division raises.
\<close>

theorem verify_biometric_zero_mean_counterexample:
  "verify_biometric default_tolerances
      (Some (example_profile [(''nose_angle'', stats_of 0)]))
      (Some (example_features [(''nose_angle'', 0)])) = Inl ZeroDivisionError"
  by (simp add: verify_biometric_def not_profile_def not_current_data_def profile_empty_def
        features_empty_def dict_get_def verify_geometry_def geometry_metric_score_def)

text \<open>
  Claim C1, amended. With all three categories present on both sides, every result that
  \<open>verify_biometric\<close> returns is scored with the mean of the three category scores, and
  it accepts exactly when that mean is at least 0.8. When the live data equal the stored
  mean on every compared geometry metric, pose axis and on the colour, with at least one
  metric and one axis compared, and no compared geometry metric has
  \<open>mean * tolerance = 0\<close>, and the pose and colour tolerances are configured and nonzero,
  the overall score is 1 and the decision is accept.
\<close>

theorem verify_biometric_accept_iff:
  assumes "p_geometry p = Some (Some pg)" and "p_pose p = Some (Some pp)"
    and "p_color p = Some (Some pc)"
    and "c_geometry c = Some (Some cg)" and "c_pose c = Some (Some cp)"
    and "c_color c = Some (Some cc)"
  shows "(\<forall>accept info. verify_biometric tol (Some p) (Some c) = Inr (accept, info) \<longrightarrow>
            (\<exists>g po co.
               verify_geometry tol (Some pg) (Some cg) = Inr g \<and>
               verify_pose tol (Some pp) (Some cp) = Inr po \<and>
               verify_color tol (Some pc) (Some cc) = Inr co \<and>
               info = ScoreInfo ((match_score g + match_score po + match_score co) / 3)
                        [(''geometry'', g), (''pose'', po), (''color'', co)] \<and>
               (accept \<longleftrightarrow> (match_score g + match_score po + match_score co) / 3 \<ge> 0.8))) \<and>
         (geometry_equals_mean tol pg cg \<and> pose_equals_mean tol pp cp \<and>
            color_equals_mean tol pc cc \<longrightarrow>
            (\<exists>details. verify_biometric tol (Some p) (Some c) = Inr (True, ScoreInfo 1 details)))"
proof -
  have np: "\<not> not_profile (Some p)" using assms(1) by (simp add: not_profile_def profile_empty_def)
  have nc: "\<not> not_current_data (Some c)"
    using assms(4) by (simp add: not_current_data_def features_empty_def)
  have gets: "dict_get (p_geometry p) = Some pg" "dict_get (p_pose p) = Some pp"
    "dict_get (p_color p) = Some pc" "dict_get (c_geometry c) = Some cg"
    "dict_get (c_pose c) = Some cp" "dict_get (c_color c) = Some cc"
    using assms by (simp_all add: dict_get_def)
  have part1: "\<forall>accept info. verify_biometric tol (Some p) (Some c) = Inr (accept, info) \<longrightarrow>
            (\<exists>g po co.
               verify_geometry tol (Some pg) (Some cg) = Inr g \<and>
               verify_pose tol (Some pp) (Some cp) = Inr po \<and>
               verify_color tol (Some pc) (Some cc) = Inr co \<and>
               info = ScoreInfo ((match_score g + match_score po + match_score co) / 3)
                        [(''geometry'', g), (''pose'', po), (''color'', co)] \<and>
               (accept \<longleftrightarrow> (match_score g + match_score po + match_score co) / 3 \<ge> 0.8))"
    using verify_biometric_result[OF _ np nc, of tol] unfolding gets by blast
  have part2: "\<exists>details. verify_biometric tol (Some p) (Some c) = Inr (True, ScoreInfo 1 details)"
    if ex: "geometry_equals_mean tol pg cg \<and> pose_equals_mean tol pp cp \<and> color_equals_mean tol pc cc"
  proof -
    from ex obtain g where g: "verify_geometry tol (Some pg) (Some cg) = Inr g" "match_score g = 1"
      using verify_geometry_exact by blast
    from ex obtain po where po: "verify_pose tol (Some pp) (Some cp) = Inr po" "match_score po = 1"
      using verify_pose_exact by blast
    from ex obtain co where co: "verify_color tol (Some pc) (Some cc) = Inr co" "match_score co = 1"
      using verify_color_exact by blast
    show ?thesis
      using verify_biometric_scored[OF np nc, of tol g po co] g po co unfolding gets by simp
  qed
  from part1 part2 show ?thesis by blast
qed

theorem verify_biometric_accept_iff_witness:
  "geometry_equals_mean default_tolerances [(''eye_distance'', stats_of 60)] [(''eye_distance'', 60)] \<and>
   pose_equals_mean default_tolerances example_pose_profile example_pose \<and>
   color_equals_mean default_tolerances example_color_profile [120, 110, 100] \<and>
   (\<exists>details. verify_biometric default_tolerances
       (Some (example_profile [(''eye_distance'', stats_of 60)]))
       (Some (example_features [(''eye_distance'', 60)])) = Inr (True, ScoreInfo 1 details))"
proof -
  have g: "geometry_equals_mean default_tolerances [(''eye_distance'', stats_of 60)] [(''eye_distance'', 60)]"
    by (simp add: geometry_equals_mean_def get_threshold_def default_tolerances_simps)
  have p: "pose_equals_mean default_tolerances example_pose_profile example_pose"
    by (simp add: pose_equals_mean_def default_tolerances_simps)
  have c: "color_equals_mean default_tolerances example_color_profile [120, 110, 100]"
    by (simp add: color_equals_mean_def default_tolerances_simps)
  show ?thesis
    using g p c
      verify_biometric_accept_iff[of "example_profile [(''eye_distance'', stats_of 60)]"
        "[(''eye_distance'', stats_of 60)]" example_pose_profile example_color_profile
        "example_features [(''eye_distance'', 60)]" "[(''eye_distance'', 60)]" example_pose
        "[120, 110, 100]" default_tolerances]
    by simp
qed

subsection \<open>Geometry scores\<close>

text \<open>
  Claim C5, as stated, fails where \<open>profile.mean * tolerance\<close> is zero: no score is
  produced, the division raises \<open>ZeroDivisionError\<close>.
\<close>

theorem geometry_zero_mean_counterexample:
  "verify_geometry default_tolerances
      (Some [(''nose_angle'', stats_of 0)]) (Some [(''nose_angle'', 4)]) = Inl ZeroDivisionError"
  by (simp add: verify_geometry_def geometry_metric_score_def)

text \<open>
  Claim C5, amended. Provided \<open>profile.mean * tolerance\<close> is nonzero for every metric
  present on both sides, the scores of \<open>_verify_geometry\<close> are, in the profile's order,
  \<open>max(0, 1 - |live - mean| / (mean * t))\<close> for exactly the metrics present on both sides;
  a metric missing on the live side contributes nothing, and the category score is the
  mean of these scores. With mean 1.30, tolerance 0.05 and live value 1.35 the score is
  \<open>1 - 0.05 / 0.065\<close>.
\<close>

theorem geometry_scores_formula:
  assumes "(m, st) \<in> set pg" and "map_of cg m = Some live"
    and "geometry_denominators_nonzero tol pg cg"
  shows "\<exists>r. verify_geometry tol (Some pg) (Some cg) = Inr r
           \<and> map snd (item_scores r) = expected_geometry_scores tol pg cg
           \<and> max 0 (1 - \<bar>live - stat_mean st\<bar> / (stat_mean st * get_threshold tol m))
                \<in> set (map snd (item_scores r))
           \<and> match_score r = np_mean (map snd (item_scores r))
           \<and> geometry_metric_score 1.35 1.30 0.05 = Inr (1 - 0.05 / 0.065)"
proof -
  have ex: "geometry_metric_score 1.35 1.30 0.05 = Inr (1 - 0.05 / 0.065)"
    by (simp add: geometry_metric_score_def Let_def)
  from verify_geometry_scores[OF assms] ex show ?thesis by metis
qed

theorem geometry_scores_formula_witness:
  "geometry_denominators_nonzero default_tolerances
      [(''face_width_height_ratio'',
         \<lparr>stat_mean = 1.30, stat_std = 0.02, stat_min = 1.28, stat_max = 1.33\<rparr>),
       (''eye_distance'', stats_of 60)]
      [(''face_width_height_ratio'', 1.35)] \<and>
   (\<exists>r. verify_geometry default_tolerances
      (Some [(''face_width_height_ratio'',
               \<lparr>stat_mean = 1.30, stat_std = 0.02, stat_min = 1.28, stat_max = 1.33\<rparr>),
             (''eye_distance'', stats_of 60)])
      (Some [(''face_width_height_ratio'', 1.35)]) = Inr r \<and>
      map snd (item_scores r) = [3 / 13] \<and> match_score r = 3 / 13)"
proof -
  let ?pg = "[(''face_width_height_ratio'',
                \<lparr>stat_mean = 1.30, stat_std = 0.02, stat_min = 1.28, stat_max = 1.33\<rparr>),
              (''eye_distance'', stats_of 60)]"
  let ?cg = "[(''face_width_height_ratio'', 1.35::real)]"
  have nz: "geometry_denominators_nonzero default_tolerances ?pg ?cg"
    by (simp add: geometry_denominators_nonzero_def get_threshold_def default_tolerances_simps)
  have ex: "expected_geometry_scores default_tolerances ?pg ?cg = [3 / 13]"
    by (simp add: expected_geometry_scores_def get_threshold_def default_tolerances_simps)
  have "(''face_width_height_ratio'',
          \<lparr>stat_mean = 1.30, stat_std = 0.02, stat_min = 1.28, stat_max = 1.33\<rparr>) \<in> set ?pg"
    by simp
  moreover have "map_of ?cg ''face_width_height_ratio'' = Some 1.35" by simp
  ultimately show ?thesis
    using nz geometry_scores_formula[of "''face_width_height_ratio''" _ ?pg ?cg "1.35"
        default_tolerances]
    unfolding ex by (auto simp: np_mean_def)
qed

subsection \<open>The default tolerance\<close>

text \<open>
  Claim C10, as stated, fails for a metric without a configured tolerance whose stored
  mean is zero: the metric is not scored, the division raises \<open>ZeroDivisionError\<close>.
\<close>

theorem default_tolerance_zero_mean_counterexample:
  "default_tolerances ''jaw_width'' = None \<and>
   verify_geometry default_tolerances
      (Some [(''jaw_width'', stats_of 0)]) (Some [(''jaw_width'', 0)]) = Inl ZeroDivisionError"
  by (simp add: verify_geometry_def geometry_metric_score_def default_tolerances_simps)

text \<open>
  Claim C10, amended. For a geometry metric present on both sides and absent from the
  tolerance map, \<open>_verify_geometry\<close> behaves exactly as if the tolerance 0.1 were
  configured for it, and never raises \<open>KeyError\<close>. Provided no compared metric has
  \<open>mean * tolerance = 0\<close>, the metric is not skipped: its score, computed with the
  tolerance 0.1, is among the scores whose mean is the geometry category score.
\<close>

theorem default_tolerance_used:
  assumes "tol m = None" and "(m, st) \<in> set pg" and "map_of cg m = Some live"
  shows "verify_geometry tol (Some pg) (Some cg) =
           verify_geometry (tol(m \<mapsto> 0.1)) (Some pg) (Some cg)
         \<and> verify_geometry tol (Some pg) (Some cg) \<noteq> Inl KeyError
         \<and> (geometry_denominators_nonzero tol pg cg \<longrightarrow>
              (\<exists>r. verify_geometry tol (Some pg) (Some cg) = Inr r
                 \<and> error_msg r = None
                 \<and> max 0 (1 - \<bar>live - stat_mean st\<bar> / (stat_mean st * 0.1))
                      \<in> set (map snd (item_scores r))
                 \<and> match_score r = np_mean (map snd (item_scores r))))"
proof -
  have thr: "get_threshold tol m = 0.1" using assms(1) by (simp add: get_threshold_def)
  have scored: "\<exists>r. verify_geometry tol (Some pg) (Some cg) = Inr r
                 \<and> error_msg r = None
                 \<and> max 0 (1 - \<bar>live - stat_mean st\<bar> / (stat_mean st * 0.1))
                      \<in> set (map snd (item_scores r))
                 \<and> match_score r = np_mean (map snd (item_scores r))"
    if nz: "geometry_denominators_nonzero tol pg cg"
    using verify_geometry_scores[OF assms(2,3) nz] unfolding thr by metis
  show ?thesis
    using scored verify_geometry_default[of tol m "Some pg" "Some cg", OF assms(1)]
      verify_geometry_no_key_error[of tol "Some pg" "Some cg"]
    by simp
qed

theorem default_tolerance_used_witness:
  "default_tolerances ''jaw_width'' = None \<and>
   geometry_denominators_nonzero default_tolerances
      [(''jaw_width'', stats_of 100)] [(''jaw_width'', 105)] \<and>
   (\<exists>r. verify_geometry default_tolerances
           (Some [(''jaw_width'', stats_of 100)]) (Some [(''jaw_width'', 105)]) = Inr r \<and>
        1 / 2 \<in> set (map snd (item_scores r)))"
proof -
  have absent: "default_tolerances ''jaw_width'' = None"
    by (simp add: default_tolerances_simps)
  have nz: "geometry_denominators_nonzero default_tolerances
      [(''jaw_width'', stats_of 100)] [(''jaw_width'', 105)]"
    by (simp add: geometry_denominators_nonzero_def get_threshold_def default_tolerances_simps)
  have in_pg: "(''jaw_width'', stats_of 100) \<in> set [(''jaw_width'', stats_of 100)]" by simp
  have in_cg: "map_of [(''jaw_width'', 105::real)] ''jaw_width'' = Some 105" by simp
  have val: "max 0 (1 - \<bar>105 - stat_mean (stats_of 100)\<bar> / (stat_mean (stats_of 100) * 0.1))
               = (1 / 2 :: real)"
    by simp
  from default_tolerance_used[of default_tolerances "''jaw_width''" "stats_of 100"
      "[(''jaw_width'', stats_of 100)]" "[(''jaw_width'', 105)]" 105,
      OF absent in_pg in_cg, THEN conjunct2, THEN conjunct2, THEN mp, OF nz]
  show ?thesis unfolding val using absent nz by blast
qed

subsection \<open>Change gate\<close>

lemma rate_limited:
  "last_save_time self = Some last_time \<Longrightarrow> current_time - last_time < MIN_FRAME_INTERVAL thr \<Longrightarrow>
     should_save_frame thr self current_time landmarks_array head_pose = Inr (False, self)"
  by (simp add: should_save_frame_def)

lemma capacity_reached:
  "frame_count self \<ge> MAX_STORED_FRAMES thr \<Longrightarrow>
     should_save_frame thr self current_time landmarks_array head_pose = Inr (False, self)"
  by (simp add: should_save_frame_def)

lemma should_save_frame_count:
  assumes "should_save_frame thr self current_time landmarks_array head_pose = Inr (saved, self')"
    and "frame_count self \<le> MAX_STORED_FRAMES thr"
  shows "frame_count self' \<le> MAX_STORED_FRAMES thr"
  using assms
  by (auto simp: should_save_frame_def Let_def split: if_splits sum.splits option.splits)

lemma feed_count:
  "frame_count self \<le> MAX_STORED_FRAMES thr \<Longrightarrow>
     frame_count (feed thr self observations) \<le> MAX_STORED_FRAMES thr"
proof (induction observations arbitrary: self)
  case Nil
  then show ?case by simp
next
  case (Cons ob observations)
  obtain current_time landmarks_array head_pose where ob: "ob = (current_time, landmarks_array, head_pose)"
    by (cases ob)
  show ?case
  proof (cases "should_save_frame thr self current_time landmarks_array head_pose")
    case (Inl e)
    then show ?thesis using Cons ob by simp
  next
    case (Inr r)
    obtain saved self' where r: "r = (saved, self')" by (cases r)
    have "frame_count self' \<le> MAX_STORED_FRAMES thr"
      using should_save_frame_count[OF Inr[unfolded r] Cons.prems] .
    then show ?thesis using Cons.IH Inr r ob by simp
  qed
qed

lemma sqrt_25: "sqrt 25 = 5"
  by (rule real_sqrt_unique) auto

text \<open>
  Claim C3. A detector without last-admitted landmarks, without a last admission time and
  with zero admitted frames admits its first observation whenever the configured capacity
  is positive: the landmark change against a missing previous array is infinite, and the
  call stores the observation and counts one frame.
\<close>

theorem first_observation_admitted:
  assumes "last_landmarks self = None" and "last_save_time self = None"
    and "frame_count self = 0" and "0 < MAX_STORED_FRAMES thr"
  shows "calculate_landmark_change landmarks_array (last_landmarks self) = Inr Infinite \<and>
         should_save_frame thr self current_time landmarks_array head_pose =
           Inr (True, \<lparr>last_landmarks = Some landmarks_array, last_pose = head_pose,
                       last_save_time = Some current_time, frame_count = 1\<rparr>)"
  using assms by (simp add: should_save_frame_def calculate_landmark_change_def)

theorem first_observation_admitted_witness:
  "0 < MAX_STORED_FRAMES settings \<and>
   should_save_frame settings initial_detector 0 [(0, 0, 0)] None =
     Inr (True, \<lparr>last_landmarks = Some [(0, 0, 0)], last_pose = None,
                 last_save_time = Some 0, frame_count = 1\<rparr>)"
  using first_observation_admitted[of initial_detector settings "[(0, 0, 0)]" 0 None]
  by (simp add: initial_detector_def settings_def)

text \<open>
  Claim C4, as stated, fails for a negative \<open>MAX_STORED_FRAMES\<close>: every observation is
  rejected, and the count of the initial detector, zero, already exceeds the ceiling.
\<close>

theorem negative_capacity_counterexample:
  "feed (settings\<lparr>MAX_STORED_FRAMES := -1\<rparr>) initial_detector
       [(0, [(0, 0, 0), (3, 4, 0)], None)] = initial_detector \<and>
   frame_count initial_detector > MAX_STORED_FRAMES (settings\<lparr>MAX_STORED_FRAMES := -1\<rparr>)"
  by (simp add: should_save_frame_def initial_detector_def settings_def)

text \<open>
  Claim C4, amended. Provided \<open>MAX_STORED_FRAMES\<close> is not negative: an observation that
  arrives less than \<open>MIN_FRAME_INTERVAL\<close> after the last admission is rejected, whatever
  its landmarks are; once the count of admitted frames has reached \<open>MAX_STORED_FRAMES\<close>
  every observation is rejected; and after any sequence of observations fed to a new
  detector the count is at most \<open>MAX_STORED_FRAMES\<close>.
\<close>

theorem gate_rate_limit_and_capacity:
  assumes "0 \<le> MAX_STORED_FRAMES thr"
  shows "(\<forall>self last_time current_time landmarks_array head_pose.
            last_save_time self = Some last_time \<and>
            current_time - last_time < MIN_FRAME_INTERVAL thr \<longrightarrow>
            should_save_frame thr self current_time landmarks_array head_pose = Inr (False, self)) \<and>
         (\<forall>self current_time landmarks_array head_pose.
            MAX_STORED_FRAMES thr \<le> frame_count self \<longrightarrow>
            should_save_frame thr self current_time landmarks_array head_pose = Inr (False, self)) \<and>
         (\<forall>observations.
            frame_count (feed thr initial_detector observations) \<le> MAX_STORED_FRAMES thr)"
proof -
  have "frame_count initial_detector \<le> MAX_STORED_FRAMES thr"
    using assms by (simp add: initial_detector_def)
  then show ?thesis
    using rate_limited capacity_reached feed_count by blast
qed

theorem gate_rate_limit_and_capacity_witness:
  "0 \<le> MAX_STORED_FRAMES settings \<and>
   feed settings initial_detector [(0, [(0, 0, 0), (3, 4, 0)], None)] = admitted_once \<and>
   calculate_landmark_change [(3, 4, 0), (0, 0, 0)] (last_landmarks admitted_once) = Inr (Finite 1) \<and>
   exceeds (Finite 1) (LANDMARK_CHANGE_THRESHOLD settings) \<and>
   should_save_frame settings admitted_once 0.1 [(3, 4, 0), (0, 0, 0)] None =
     Inr (False, admitted_once) \<and>
   should_save_frame settings (admitted_once\<lparr>frame_count := 100\<rparr>) 7 [(3, 4, 0), (0, 0, 0)] None =
     Inr (False, admitted_once\<lparr>frame_count := 100\<rparr>) \<and>
   frame_count (feed settings initial_detector
       [(0, [(0, 0, 0), (3, 4, 0)], None), (0.1, [(3, 4, 0), (0, 0, 0)], None)]) \<le> 100"
proof -
  have cap: "0 \<le> MAX_STORED_FRAMES settings" by (simp add: settings_def)
  have first: "feed settings initial_detector [(0, [(0, 0, 0), (3, 4, 0)], None)] = admitted_once"
    by (simp add: should_save_frame_def calculate_landmark_change_def initial_detector_def
          settings_def)
  have change: "calculate_landmark_change [(3, 4, 0), (0, 0, 0)] (last_landmarks admitted_once)
                  = Inr (Finite 1)"
    by (simp add: calculate_landmark_change_def rows_sub_def point_sub_def point_norm_def
          px_def py_def pz_def extent_def np_max_def np_min_def np_mean_def sqrt_25)
  have big: "exceeds (Finite 1) (LANDMARK_CHANGE_THRESHOLD settings)"
    by (simp add: settings_def)
  have early: "(0.1::real) - 0 < MIN_FRAME_INTERVAL settings" by (simp add: settings_def)
  have full: "MAX_STORED_FRAMES settings \<le> frame_count (admitted_once\<lparr>frame_count := 100\<rparr>)"
    by (simp add: settings_def)
  note gate = gate_rate_limit_and_capacity[OF cap]
  have second: "should_save_frame settings admitted_once 0.1 [(3, 4, 0), (0, 0, 0)] None =
     Inr (False, admitted_once)"
    using gate[THEN conjunct1, rule_format, of admitted_once 0 "0.1"] early by simp
  have third: "should_save_frame settings (admitted_once\<lparr>frame_count := 100\<rparr>) 7
      [(3, 4, 0), (0, 0, 0)] None = Inr (False, admitted_once\<lparr>frame_count := 100\<rparr>)"
    using gate[THEN conjunct2, THEN conjunct1, rule_format, OF full] .
  have count: "frame_count (feed settings initial_detector
       [(0, [(0, 0, 0), (3, 4, 0)], None), (0.1, [(3, 4, 0), (0, 0, 0)], None)]) \<le> 100"
    using gate[THEN conjunct2, THEN conjunct2, rule_format,
        of "[(0, [(0, 0, 0), (3, 4, 0)], None), (0.1, [(3, 4, 0), (0, 0, 0)], None)]"]
    by (simp add: settings_def)
  from cap first change big second third count show ?thesis by blast
qed

subsection \<open>Expression classifier\<close>

lemma scores_list:
  "map (\<lambda>(expression, chars). (expression, calculate_expression_score metrics chars))
       characteristics =
     [(SMILE, expression_score metrics SMILE), (FROWN, expression_score metrics FROWN),
      (SURPRISE, expression_score metrics SURPRISE), (SQUINT, expression_score metrics SQUINT)]"
  by (simp add: characteristics_def expression_score_def)

lemma py_max_four: "py_max_key id a [b, c, d] = max a (max b (max c d))"
  by (simp add: max_def)

lemma py_max_key_four:
  "fst (py_max_key snd (ea, a) [(eb, b), (ec, c), (ed, d)]) =
     (if a = max a (max b (max c d)) then ea
      else if b = max a (max b (max c d)) then eb
      else if c = max a (max b (max c d)) then ec else ed)"
  by (simp add: max_def)

lemma classify_expression_unfold:
  "classify_expression thr metrics =
     (let a = expression_score metrics SMILE; b = expression_score metrics FROWN;
          c = expression_score metrics SURPRISE; d = expression_score metrics SQUINT;
          m = max a (max b (max c d))
      in if m < thr then Inr (NEUTRAL, 1 - m)
         else Inr (if a = m then SMILE else if b = m then FROWN
                   else if c = m then SURPRISE else SQUINT, m))"
  unfolding classify_expression_def scores_list
  by (simp only: Let_def list.case list.map snd_conv py_max_four py_max_key_four)

lemma empty_scores: "expression_score Map.empty e = 0"
  by (cases e) (simp_all add: expression_score_def characteristics_def calculate_expression_score_def)

text \<open>
  Claim C8. Let the maximum be taken over the scores of smile, frown, surprise and
  squint. When it is below the neutral threshold the classifier returns \<open>NEUTRAL\<close> with
  confidence one minus the maximum. Otherwise it returns an expression whose score is
  the maximum, with that score as confidence, and among the expressions with the maximal
  score it returns the first in the order smile, frown, surprise, squint.
\<close>

theorem classify_expression_correct:
  "\<exists>e confidence. classify_expression thr metrics = Inr (e, confidence) \<and>
     (Max (expression_score metrics ` {SMILE, FROWN, SURPRISE, SQUINT}) < thr \<longrightarrow>
        e = NEUTRAL \<and>
        confidence = 1 - Max (expression_score metrics ` {SMILE, FROWN, SURPRISE, SQUINT})) \<and>
     (\<not> Max (expression_score metrics ` {SMILE, FROWN, SURPRISE, SQUINT}) < thr \<longrightarrow>
        e \<in> {SMILE, FROWN, SURPRISE, SQUINT} \<and>
        confidence = Max (expression_score metrics ` {SMILE, FROWN, SURPRISE, SQUINT}) \<and>
        expression_score metrics e = confidence \<and>
        (\<forall>e' \<in> {SMILE, FROWN, SURPRISE, SQUINT}.
           expression_score metrics e' = confidence \<longrightarrow> enumeration_rank e \<le> enumeration_rank e'))"
  by (simp add: classify_expression_unfold Let_def)

theorem classify_expression_correct_witness:
  "Max (expression_score Map.empty ` {SMILE, FROWN, SURPRISE, SQUINT}) < 0.1 \<and>
   classify_expression 0.1 Map.empty = Inr (NEUTRAL, 1) \<and>
   \<not> Max (expression_score Map.empty ` {SMILE, FROWN, SURPRISE, SQUINT}) < 0 \<and>
   classify_expression 0 Map.empty = Inr (SMILE, 0)"
proof -
  have m: "Max (expression_score Map.empty ` {SMILE, FROWN, SURPRISE, SQUINT}) = 0"
    by (simp add: empty_scores)
  from classify_expression_correct[of "0.1" Map.empty]
  have neutral: "classify_expression 0.1 Map.empty = Inr (NEUTRAL, 1)"
    unfolding m by auto
  from classify_expression_correct[of 0 Map.empty]
  obtain e where e: "classify_expression 0 Map.empty = Inr (e, 0)"
    and first: "\<forall>e' \<in> {SMILE, FROWN, SURPRISE, SQUINT}.
           expression_score Map.empty e' = 0 \<longrightarrow> enumeration_rank e \<le> enumeration_rank e'"
    unfolding m by auto
  from first have "enumeration_rank e \<le> enumeration_rank SMILE"
    by (simp add: empty_scores)
  then have "e = SMILE" by (cases e) simp_all
  with e neutral m show ?thesis by simp
qed

subsection \<open>Landmark geometry\<close>

text \<open>
  Claim C7. The ratios of \<open>calculate_proportions\<close> and the roundness of
  \<open>analyze_face_shape\<close> are plain NumPy quotients without a check of the divisor. For a
  face contour of height zero the ratios over the face height are infinite, and for a
  contour whose points coincide the roundness is not a number.
\<close>

theorem flat_contour_ratios:
  "calculate_proportions flat_indices [(0, 0, 0), (1, 0, 0)] =
     Inr \<lparr>width_height_ratio = PosInf, eye_spacing_ratio = Fin 1,
          nose_face_ratio = PosInf, mouth_face_ratio = Fin 1\<rparr> \<and>
   analyze_face_shape flat_indices [(3, 4, 0), (3, 4, 0)] = Inr (0, NaN)"
  by (simp add: calculate_proportions_def analyze_face_shape_def extent_def np_max_def
        np_min_def mean_point_def centroid_distance_def np_mean_def np_std_def point_sub_def
        point_norm_def px_def py_def pz_def)

subsection \<open>Mesh metrics\<close>

lemma face_vertices_in_range:
  "faces_in_range vertices faces \<Longrightarrow>
     face_vertices vertices faces =
       Inr (map (\<lambda>(i, j, k). (vertices ! i, vertices ! j, vertices ! k)) faces)"
  by (induction faces) (auto simp: faces_in_range_def)

lemma calculate_face_metrics_in_range:
  assumes "faces_in_range vertices faces"
  shows "calculate_face_metrics vertices faces =
           Inr \<lparr>areas = map (\<lambda>f. point_norm (edge_cross vertices f) / 2) faces,
                normals = map (\<lambda>f. divide_by_norm (edge_cross vertices f)) faces,
                mean_area = (if faces = [] then NaN
                             else Fin (np_mean (map (\<lambda>f. point_norm (edge_cross vertices f) / 2) faces))),
                total_area = sum_list (map (\<lambda>f. point_norm (edge_cross vertices f) / 2) faces)\<rparr>"
proof -
  have n: "map (\<lambda>(u, v). cross u v)
             (zip (map (\<lambda>(a, b, c). point_sub b a)
                     (map (\<lambda>(i, j, k). (vertices ! i, vertices ! j, vertices ! k)) faces))
                  (map (\<lambda>(a, b, c). point_sub c a)
                     (map (\<lambda>(i, j, k). (vertices ! i, vertices ! j, vertices ! k)) faces)))
           = map (edge_cross vertices) faces"
    by (induction faces) (auto simp: edge_cross_def)
  show ?thesis
    unfolding calculate_face_metrics_def face_vertices_in_range[OF assms]
    by (simp only: sum.case Let_def n) (simp add: o_def)
qed

lemma point_norm_pos: "n \<noteq> (0, 0, 0) \<Longrightarrow> point_norm n > 0"
proof -
  assume "n \<noteq> (0, 0, 0)"
  then have "px n \<noteq> 0 \<or> py n \<noteq> 0 \<or> pz n \<noteq> 0"
    by (cases n) (auto simp: px_def py_def pz_def)
  then have "px n * px n + py n * py n + pz n * pz n > 0"
    by (metis add_pos_nonneg add_nonneg_pos not_real_square_gt_zero zero_le_square add_nonneg_nonneg)
  then show ?thesis by (simp add: point_norm_def)
qed

lemma point_norm_square: "point_norm n * point_norm n = px n * px n + py n * py n + pz n * pz n"
proof -
  have "0 \<le> px n * px n + py n * py n + pz n * pz n"
    by (simp add: add_nonneg_nonneg)
  then show ?thesis by (simp add: point_norm_def)
qed

lemma divide_by_norm_unit:
  assumes "n \<noteq> (0, 0, 0)"
  shows "\<exists>nx ny nz. divide_by_norm n = (Fin nx, Fin ny, Fin nz) \<and>
           nx * nx + ny * ny + nz * nz = 1 \<and>
           n = (point_norm n * nx, point_norm n * ny, point_norm n * nz)"
proof -
  let ?l = "point_norm n"
  have pos: "?l > 0" using assms by (rule point_norm_pos)
  have d: "divide_by_norm n = (Fin (px n / ?l), Fin (py n / ?l), Fin (pz n / ?l))"
    using pos by (simp add: divide_by_norm_def)
  have "(px n / ?l) * (px n / ?l) + (py n / ?l) * (py n / ?l) + (pz n / ?l) * (pz n / ?l)
          = (px n * px n + py n * py n + pz n * pz n) / (?l * ?l)"
    by (simp add: add_divide_distrib)
  also have "\<dots> = 1" using pos by (simp add: point_norm_square[symmetric])
  finally have u: "(px n / ?l) * (px n / ?l) + (py n / ?l) * (py n / ?l) + (pz n / ?l) * (pz n / ?l) = 1" .
  have "n = (?l * (px n / ?l), ?l * (py n / ?l), ?l * (pz n / ?l))"
    using pos by (cases n) (simp add: px_def py_def pz_def)
  with d u show ?thesis by blast
qed

text \<open>
  Claim C9, as stated, fails for a degenerate triangle: its normal is produced by
  dividing each component of the zero cross product by the zero norm, which gives
  \<open>nan\<close> three times.
\<close>

theorem degenerate_face_counterexample:
  "calculate_face_metrics [(0, 0, 0), (1, 0, 0), (2, 0, 0)] [(0, 1, 2)] =
     Inr \<lparr>areas = [0], normals = [(NaN, NaN, NaN)], mean_area = Fin 0, total_area = 0\<rparr> \<and>
   divide_by_norm (0, 0, 0) = (np_divide (Fin 0) (Fin 0), np_divide (Fin 0) (Fin 0),
                               np_divide (Fin 0) (Fin 0))"
  by (simp add: calculate_face_metrics_def cross_def point_sub_def point_norm_def
        divide_by_norm_def px_def py_def pz_def np_mean_def)

text \<open>
  Claim C9, amended. For a mesh whose faces index existing vertices, the area of each
  face is half the norm of the cross product of its two edge vectors, and its normal is
  that cross product divided, component by component, by its norm. For a triangle whose
  cross product is not zero this is the unit vector in the direction of the cross
  product.
\<close>

theorem face_area_and_normal:
  assumes "faces_in_range vertices faces"
  shows "\<exists>r. calculate_face_metrics vertices faces = Inr r \<and>
           areas r = map (\<lambda>f. point_norm (edge_cross vertices f) / 2) faces \<and>
           normals r = map (\<lambda>f. divide_by_norm (edge_cross vertices f)) faces \<and>
           (\<forall>f \<in> set faces. edge_cross vertices f \<noteq> (0, 0, 0) \<longrightarrow>
              (\<exists>nx ny nz.
                 divide_by_norm (edge_cross vertices f) = (Fin nx, Fin ny, Fin nz) \<and>
                 nx * nx + ny * ny + nz * nz = 1 \<and>
                 edge_cross vertices f =
                   (point_norm (edge_cross vertices f) * nx,
                    point_norm (edge_cross vertices f) * ny,
                    point_norm (edge_cross vertices f) * nz)))"
  using calculate_face_metrics_in_range[OF assms] divide_by_norm_unit by simp

theorem face_area_and_normal_witness:
  "faces_in_range [(0, 0, 0), (1, 0, 0), (0, 1, 0)] [(0, 1, 2)] \<and>
   edge_cross [(0, 0, 0), (1, 0, 0), (0, 1, 0)] (0, 1, 2) = (0, 0, 1) \<and>
   (\<exists>r. calculate_face_metrics [(0, 0, 0), (1, 0, 0), (0, 1, 0)] [(0, 1, 2)] = Inr r \<and>
        areas r = [1 / 2] \<and> normals r = [(Fin 0, Fin 0, Fin 1)])"
proof -
  have r: "faces_in_range [(0, 0, 0), (1, 0, 0), (0, 1, 0)] [(0, 1, 2)]"
    by (simp add: faces_in_range_def)
  have c: "edge_cross [(0, 0, 0), (1, 0, 0), (0, 1, 0)] (0, 1, 2) = (0, 0, 1)"
    by (simp add: edge_cross_def cross_def point_sub_def px_def py_def pz_def)
  have n: "point_norm (0, 0, 1) = 1" by (simp add: point_norm_def px_def py_def pz_def)
  have d: "divide_by_norm (0, 0, 1) = (Fin 0, Fin 0, Fin 1)"
    by (simp add: divide_by_norm_def n) (simp add: px_def py_def pz_def)
  from face_area_and_normal[OF r] show ?thesis
    using r c by (auto simp: n d)
qed

subsection \<open>Depth map\<close>

lemma fill_in_mask_cells:
  assumes "length nearest_grid = length linear_grid" and "length face_mask = length linear_grid"
  shows "fill_in_mask linear_grid nearest_grid face_mask =
           map (\<lambda>(c, x, y). if c then x else y)
               (zip (nan_in_mask linear_grid face_mask) (zip nearest_grid linear_grid))"
proof (cases "list_ex id (nan_in_mask linear_grid face_mask)")
  case True
  then show ?thesis by (simp add: fill_in_mask_def np_where_def)
next
  case False
  then have none: "\<forall>c \<in> set (nan_in_mask linear_grid face_mask). \<not> c"
    by (auto simp: list_ex_iff)
  have len: "length (nan_in_mask linear_grid face_mask) = length linear_grid"
    using assms by (simp add: nan_in_mask_def)
  have "map (\<lambda>(c, x, y). if c then x else y)
               (zip (nan_in_mask linear_grid face_mask) (zip nearest_grid linear_grid)) = linear_grid"
  proof (rule nth_equalityI)
    show "length (map (\<lambda>(c, x, y). if c then x else y)
               (zip (nan_in_mask linear_grid face_mask) (zip nearest_grid linear_grid))) = length linear_grid"
      using assms len by simp
  next
    fix i
    assume "i < length (map (\<lambda>(c, x, y). if c then x else y)
               (zip (nan_in_mask linear_grid face_mask) (zip nearest_grid linear_grid)))"
    then have i: "i < length linear_grid" using assms len by simp
    then have "\<not> nan_in_mask linear_grid face_mask ! i" using none len by (metis nth_mem)
    then show "map (\<lambda>(c, x, y). if c then x else y)
               (zip (nan_in_mask linear_grid face_mask) (zip nearest_grid linear_grid)) ! i = linear_grid ! i"
      using i assms len by simp
  qed
  with False show ?thesis by (simp add: fill_in_mask_def)
qed

lemma fill_in_mask_length:
  assumes "length nearest_grid = length linear_grid" and "length face_mask = length linear_grid"
  shows "length (fill_in_mask linear_grid nearest_grid face_mask) = length linear_grid"
  using assms by (simp add: fill_in_mask_cells nan_in_mask_def)

lemma fill_in_mask_nth:
  assumes "length nearest_grid = length linear_grid" and "length face_mask = length linear_grid"
    and "i < length linear_grid"
  shows "fill_in_mask linear_grid nearest_grid face_mask ! i =
           (if linear_grid ! i = None \<and> face_mask ! i then nearest_grid ! i else linear_grid ! i)"
  using assms by (simp add: fill_in_mask_cells nan_in_mask_def)

lemma assign_valid_length: "length (assign_valid cells smoothed) = length cells"
  by (induction cells smoothed rule: assign_valid.induct) simp_all

lemma assign_valid_defined:
  "length smoothed = length (List.map_filter id cells) \<Longrightarrow> i < length cells \<Longrightarrow>
     (assign_valid cells smoothed ! i = None) = (cells ! i = None)"
proof (induction cells smoothed arbitrary: i rule: assign_valid.induct)
  case (1 smoothed)
  then show ?case by simp
next
  case (2 cells smoothed)
  then show ?case by (cases i) (simp_all add: map_filter_simps)
next
  case (3 d cells)
  then show ?case by (simp add: map_filter_simps)
next
  case (4 d cells s smoothed)
  then show ?case by (cases i) (simp_all add: map_filter_simps)
qed

lemma smooth_valid_defined:
  assumes "keeps_length blur"
  shows "\<exists>result. smooth_valid blur depth_map = Inr result \<and>
           length result = length depth_map \<and>
           (\<forall>i < length depth_map. (result ! i = None) = (depth_map ! i = None))"
  using assms
  by (auto simp: smooth_valid_def Let_def keeps_length_def assign_valid_length assign_valid_defined)

text \<open>
  Claim C6, as stated, fails: a cell outside the face mask at which the linear
  interpolation has a value keeps a value in the returned map. Here the first cell is
  outside the mask and defined.
\<close>

theorem defined_outside_mask_counterexample:
  "create_depth_map [Some 1, None] [Some 2, Some 3] [False, True] (\<lambda>xs. xs) = Inr [Some 1, Some 3]"
  by (simp add: create_depth_map_def smooth_valid_def fill_in_mask_def nan_in_mask_def
        np_where_def map_filter_simps)

text \<open>
  Claim C6, amended. A cell of the returned depth map is defined exactly when the linear
  interpolation is defined there, or the cell is in the face mask and the
  nearest-neighbour interpolation is defined there. So a cell outside the face mask is
  undefined exactly where the linear interpolation is, and a cell in the face mask is
  defined wherever the nearest-neighbour interpolation is.
\<close>

theorem depth_map_defined_cells:
  assumes "length nearest_grid = length linear_grid" and "length face_mask = length linear_grid"
    and "keeps_length blur"
  shows "\<exists>depth_map. create_depth_map linear_grid nearest_grid face_mask blur = Inr depth_map \<and>
           length depth_map = length linear_grid \<and>
           (\<forall>i < length linear_grid.
              (depth_map ! i \<noteq> None) =
                (linear_grid ! i \<noteq> None \<or> (face_mask ! i \<and> nearest_grid ! i \<noteq> None)))"
proof -
  let ?filled = "fill_in_mask linear_grid nearest_grid face_mask"
  from smooth_valid_defined[OF assms(3), of ?filled]
  obtain result where r: "smooth_valid blur ?filled = Inr result"
    "length result = length ?filled"
    "\<forall>i < length ?filled. (result ! i = None) = (?filled ! i = None)"
    by blast
  have len: "length ?filled = length linear_grid"
    using assms(1,2) by (rule fill_in_mask_length)
  have "\<forall>i < length linear_grid.
          (result ! i \<noteq> None) = (linear_grid ! i \<noteq> None \<or> (face_mask ! i \<and> nearest_grid ! i \<noteq> None))"
    using r(3) len fill_in_mask_nth[OF assms(1,2)] by auto
  with r(1,2) len show ?thesis by (auto simp: create_depth_map_def)
qed

theorem depth_map_defined_cells_witness:
  "keeps_length (\<lambda>xs. xs) \<and>
   create_depth_map [Some 1, None, None] [Some 2, Some 3, Some 4] [False, True, False] (\<lambda>xs. xs)
     = Inr [Some 1, Some 3, None]"
proof -
  have k: "keeps_length (\<lambda>xs. xs)" by (simp add: keeps_length_def)
  have run: "create_depth_map [Some 1, None, None] [Some 2, Some 3, Some 4]
               [False, True, False] (\<lambda>xs. xs) = Inr [Some 1, Some 3, None]"
    by (simp add: create_depth_map_def smooth_valid_def fill_in_mask_def nan_in_mask_def
          np_where_def map_filter_simps)
  from depth_map_defined_cells[of "[Some 2, Some 3, Some 4]" "[Some 1, None, None]"
      "[False, True, False]" "\<lambda>xs. xs", OF _ _ k]
  show ?thesis using k run by simp
qed

end
